theory Spec2Isabelle
  imports Complex_Main
begin

section \<open>The portfolio rebalancing optimizer (\<^verbatim>\<open>solve_lp.py\<close>)\<close>

text \<open>
  The development embeds \<^verbatim>\<open>solve_portfolio_lp\<close> of
  \<^verbatim>\<open>src/pricing/regime_downside/python/solve_lp.py\<close>.
  Python floats are modelled as real numbers (rounding is not modelled), Python integers
  as \<open>int\<close>, JSON arrays as lists, and every exception that can leave a source line as a
  value of \<open>py_error\<close>.  The array library and the three numerical back ends are not part
  of the repository: of the array library the model keeps the shape rules the program
  meets (a binary elementwise operation takes two operands of equal shape, or broadcasts a
  scalar or a one-element array against the other operand; \<^verbatim>\<open>@\<close> takes a matrix or a
  vector on the left of a vector of matching length; a variable's dimension must not be
  negative), and the back ends are a parameter of the model.
  The problem file holds a complete problem record or something else, the solution file
  can be written, and the diagnostic prints to the error stream are left out.
\<close>

subsection \<open>Exceptions\<close>

text \<open>
  The exception classes the program can meet.  \<open>ValidationError\<close> is the class the
  specification names for rejected input; no line of the program raises it.
\<close>

datatype py_error =
  FileNotFoundError | KeyError | ValueError | ZeroDivisionError | ValidationError

definition bind_err :: "py_error + 'a \<Rightarrow> ('a \<Rightarrow> py_error + 'b) \<Rightarrow> py_error + 'b" where
  "bind_err m f = (case m of Inl e \<Rightarrow> Inl e | Inr x \<Rightarrow> f x)"

definition py_div :: "real \<Rightarrow> real \<Rightarrow> py_error + real" where
  "py_div x y = (if y = 0 then Inl ZeroDivisionError else Inr (x / y))"

subsection \<open>The problem and solution records\<close>

record problem =
  n_assets :: int
  n_scenarios :: int
  asset_scenarios :: "real list list"
  benchmark_scenarios :: "real list"
  cash_scenarios :: "real list"
  prev_weights :: "real list"
  prev_cash :: real
  asset_betas :: "real list"
  stress_weight :: real
  lambda_lpm1 :: real
  lambda_cvar :: real
  lambda_beta :: real
  kappa :: real
  lpm_threshold :: real
  cvar_alpha :: real
  beta_target :: real

datatype pyfloat = Finite real | PosInf

record solution =
  asset_weights :: "real list"
  cash_weight :: real
  objective_value :: pyfloat
  lpm1_value :: real
  cvar_value :: real
  turnover :: real
  beta_penalty :: real
  solver_status :: string

subsection \<open>Arrays and their shapes\<close>

datatype ndarray = Num real | Arr "real list" | Mat "real list list"

datatype shape = Scalar_shape | Vec_shape nat | Mat_shape nat nat

fun shape_val :: "ndarray \<Rightarrow> shape" where
  "shape_val (Num a) = Scalar_shape"
| "shape_val (Arr xs) = Vec_shape (length xs)"
| "shape_val (Mat rows) = Mat_shape (length rows) (case rows of [] \<Rightarrow> 0 | r # _ \<Rightarrow> length r)"

text \<open>
  \<^verbatim>\<open>np.array\<close> of a list of rows: the empty list is a one-dimensional array of
  length 0, rows of unequal length are refused.
\<close>

definition np_array2 :: "real list list \<Rightarrow> py_error + ndarray" where
  "np_array2 rows =
     (case rows of
        [] \<Rightarrow> Inr (Arr [])
      | r # rs \<Rightarrow> if list_all (\<lambda>q. length q = length r) rs then Inr (Mat rows)
                 else Inl ValueError)"

definition dot :: "real list \<Rightarrow> real list \<Rightarrow> real" where
  "dot xs ys = sum_list (map2 (*) xs ys)"

text \<open>
  Elementwise binary operations with broadcasting: a scalar, or an array with a single
  entry, is combined with every entry of the other operand; two arrays of different
  lengths, neither of length 1, are refused.  The program never applies such an operation
  to a two-dimensional array; those cases are not modelled and give \<open>None\<close>.
\<close>

fun elementwise :: "(real \<Rightarrow> real \<Rightarrow> real) \<Rightarrow> ndarray \<Rightarrow> ndarray \<Rightarrow> ndarray option" where
  "elementwise f (Num a) (Num b) = Some (Num (f a b))"
| "elementwise f (Num a) (Arr ys) = Some (Arr (map (f a) ys))"
| "elementwise f (Arr xs) (Num b) = Some (Arr (map (\<lambda>x. f x b) xs))"
| "elementwise f (Arr xs) (Arr ys) =
     (if length xs = length ys then Some (Arr (map2 f xs ys))
      else if length xs = 1 then Some (Arr (map (f (hd xs)) ys))
      else if length ys = 1 then Some (Arr (map (\<lambda>x. f x (hd ys)) xs))
      else None)"
| "elementwise f (Mat va) vb = None"
| "elementwise f va (Mat vb) = None"

fun matmul :: "ndarray \<Rightarrow> ndarray \<Rightarrow> ndarray option" where
  "matmul (Mat rows) (Arr xs) =
     (if rows \<noteq> [] \<and> list_all (\<lambda>r. length r = length xs) rows
      then Some (Arr (map (\<lambda>r. dot r xs) rows)) else None)"
| "matmul (Arr ys) (Arr xs) =
     (if length ys = length xs then Some (Num (dot ys xs)) else None)"
| "matmul va vb = None"

fun np_sum :: "ndarray \<Rightarrow> ndarray" where
  "np_sum (Num a) = Num a"
| "np_sum (Arr xs) = Num (sum_list xs)"
| "np_sum (Mat rows) = Num (sum_list (map sum_list rows))"

fun np_neg :: "ndarray \<Rightarrow> ndarray" where
  "np_neg (Num a) = Num (- a)"
| "np_neg (Arr xs) = Arr (map uminus xs)"
| "np_neg (Mat rows) = Mat (map (map uminus) rows)"

fun all_entries :: "(real \<Rightarrow> bool) \<Rightarrow> ndarray \<Rightarrow> bool" where
  "all_entries P (Num a) = P a"
| "all_entries P (Arr xs) = list_all P xs"
| "all_entries P (Mat rows) = list_all (list_all P) rows"

fun broadcast :: "shape \<Rightarrow> shape \<Rightarrow> shape option" where
  "broadcast Scalar_shape Scalar_shape = Some Scalar_shape"
| "broadcast Scalar_shape (Vec_shape m) = Some (Vec_shape m)"
| "broadcast (Vec_shape n) Scalar_shape = Some (Vec_shape n)"
| "broadcast (Vec_shape n) (Vec_shape m) =
     (if n = m then Some (Vec_shape n)
      else if n = 1 then Some (Vec_shape m)
      else if m = 1 then Some (Vec_shape n)
      else None)"
| "broadcast (Mat_shape k l) t = None"
| "broadcast s (Mat_shape k l) = None"

fun matmul_shape :: "shape \<Rightarrow> shape \<Rightarrow> shape option" where
  "matmul_shape (Mat_shape m n) (Vec_shape k) =
     (if 0 < m \<and> n = k then Some (Vec_shape m) else None)"
| "matmul_shape (Vec_shape n) (Vec_shape k) = (if n = k then Some Scalar_shape else None)"
| "matmul_shape s t = None"

subsection \<open>Variables, expressions and constraints of the modelling library\<close>

datatype var_id = Id_w | Id_w_c | Id_s_lpm | Id_eta | Id_u | Id_z | Id_v

datatype variable = Variable (var_id: var_id) (var_shape: shape) (var_nonneg: bool)

text \<open>
  \<^verbatim>\<open>cp.Variable(d, nonneg=...)\<close>: without a dimension the variable is a scalar; a
  negative dimension is refused, the dimension 0 gives an empty vector.
\<close>

definition cp_Variable :: "var_id \<Rightarrow> int option \<Rightarrow> bool \<Rightarrow> py_error + variable" where
  "cp_Variable i d nn =
     (case d of
        None \<Rightarrow> Inr (Variable i Scalar_shape nn)
      | Some k \<Rightarrow> if k < 0 then Inl ValueError else Inr (Variable i (Vec_shape (nat k)) nn))"

datatype expr =
    EVar variable
  | EConst ndarray
  | EMatMul expr expr
  | EAdd expr expr
  | ESub expr expr
  | ENeg expr
  | EMul expr expr
  | ESum expr

datatype constr = Eq_c expr expr | Ge_c expr expr

datatype objective = Minimize expr | Maximize expr

record cp_problem =
  variables :: "variable list"
  objective :: objective
  constraints :: "constr list"

text \<open>The shape the library computes when an expression is built; \<open>None\<close> is its \<^verbatim>\<open>ValueError\<close>.\<close>

fun shape_of :: "expr \<Rightarrow> shape option" where
  "shape_of (EVar x) = Some (var_shape x)"
| "shape_of (EConst c) = Some (shape_val c)"
| "shape_of (EMatMul a b) =
     Option.bind (shape_of a) (\<lambda>s. Option.bind (shape_of b) (matmul_shape s))"
| "shape_of (EAdd a b) = Option.bind (shape_of a) (\<lambda>s. Option.bind (shape_of b) (broadcast s))"
| "shape_of (ESub a b) = Option.bind (shape_of a) (\<lambda>s. Option.bind (shape_of b) (broadcast s))"
| "shape_of (ENeg a) = shape_of a"
| "shape_of (EMul a b) = Option.bind (shape_of a) (\<lambda>s. Option.bind (shape_of b) (broadcast s))"
| "shape_of (ESum a) = Option.bind (shape_of a) (\<lambda>s. Some Scalar_shape)"

fun constr_shape :: "constr \<Rightarrow> shape option" where
  "constr_shape (Eq_c l r) = shape_of (ESub l r)"
| "constr_shape (Ge_c l r) = shape_of (ESub l r)"

subsection \<open>Values of the variables and the meaning of expressions\<close>

record assignment =
  w_value :: "real list"
  w_c_value :: real
  s_lpm_value :: "real list"
  eta_value :: real
  u_value :: "real list"
  z_value :: "real list"
  v_value :: real

fun value_of :: "assignment \<Rightarrow> var_id \<Rightarrow> ndarray" where
  "value_of \<sigma> Id_w = Arr (w_value \<sigma>)"
| "value_of \<sigma> Id_w_c = Num (w_c_value \<sigma>)"
| "value_of \<sigma> Id_s_lpm = Arr (s_lpm_value \<sigma>)"
| "value_of \<sigma> Id_eta = Num (eta_value \<sigma>)"
| "value_of \<sigma> Id_u = Arr (u_value \<sigma>)"
| "value_of \<sigma> Id_z = Arr (z_value \<sigma>)"
| "value_of \<sigma> Id_v = Num (v_value \<sigma>)"

fun eval :: "assignment \<Rightarrow> expr \<Rightarrow> ndarray option" where
  "eval \<sigma> (EVar x) = Some (value_of \<sigma> (var_id x))"
| "eval \<sigma> (EConst c) = Some c"
| "eval \<sigma> (EMatMul a b) = Option.bind (eval \<sigma> a) (\<lambda>x. Option.bind (eval \<sigma> b) (matmul x))"
| "eval \<sigma> (EAdd a b) = Option.bind (eval \<sigma> a) (\<lambda>x. Option.bind (eval \<sigma> b) (elementwise (+) x))"
| "eval \<sigma> (ESub a b) = Option.bind (eval \<sigma> a) (\<lambda>x. Option.bind (eval \<sigma> b) (elementwise (-) x))"
| "eval \<sigma> (ENeg a) = map_option np_neg (eval \<sigma> a)"
| "eval \<sigma> (EMul a b) = Option.bind (eval \<sigma> a) (\<lambda>x. Option.bind (eval \<sigma> b) (elementwise (*) x))"
| "eval \<sigma> (ESum a) = map_option np_sum (eval \<sigma> a)"

text \<open>
  A constraint holds within tolerance \<open>eps\<close> when every entry of its residual does;
  \<open>eps = 0\<close> is exact satisfaction.
\<close>

fun holds :: "real \<Rightarrow> assignment \<Rightarrow> constr \<Rightarrow> bool" where
  "holds eps \<sigma> (Eq_c l r) =
     (case eval \<sigma> (ESub l r) of None \<Rightarrow> False | Some d \<Rightarrow> all_entries (\<lambda>x. \<bar>x\<bar> \<le> eps) d)"
| "holds eps \<sigma> (Ge_c l r) =
     (case eval \<sigma> (ESub l r) of None \<Rightarrow> False | Some d \<Rightarrow> all_entries (\<lambda>x. - eps \<le> x) d)"

definition in_domain :: "real \<Rightarrow> assignment \<Rightarrow> variable \<Rightarrow> bool" where
  "in_domain eps \<sigma> x =
     (shape_val (value_of \<sigma> (var_id x)) = var_shape x \<and>
      (if var_nonneg x then all_entries (\<lambda>y. - eps \<le> y) (value_of \<sigma> (var_id x)) else True))"

definition feasible :: "real \<Rightarrow> cp_problem \<Rightarrow> assignment \<Rightarrow> bool" where
  "feasible eps lp \<sigma> =
     (list_all (in_domain eps \<sigma>) (variables lp) \<and> list_all (holds eps \<sigma>) (constraints lp))"

fun objective_expr :: "objective \<Rightarrow> expr" where
  "objective_expr (Minimize e) = e"
| "objective_expr (Maximize e) = e"

definition objective_at :: "cp_problem \<Rightarrow> assignment \<Rightarrow> real option" where
  "objective_at lp \<sigma> =
     (case eval \<sigma> (objective_expr (objective lp)) of Some (Num x) \<Rightarrow> Some x | _ \<Rightarrow> None)"

text \<open>
  An expression is well typed at an assignment when every variable in it has a value of
  its declared shape and every constant matrix has rows of one length (as \<open>np_array2\<close>
  delivers them).
\<close>

fun rectangular :: "ndarray \<Rightarrow> bool" where
  "rectangular (Mat rows) =
     (case rows of [] \<Rightarrow> False | r # rs \<Rightarrow> list_all (\<lambda>q. length q = length r) rs)"
| "rectangular c = True"

fun well_typed :: "assignment \<Rightarrow> expr \<Rightarrow> bool" where
  "well_typed \<sigma> (EVar x) = (shape_val (value_of \<sigma> (var_id x)) = var_shape x)"
| "well_typed \<sigma> (EConst c) = rectangular c"
| "well_typed \<sigma> (EMatMul a b) = (well_typed \<sigma> a \<and> well_typed \<sigma> b)"
| "well_typed \<sigma> (EAdd a b) = (well_typed \<sigma> a \<and> well_typed \<sigma> b)"
| "well_typed \<sigma> (ESub a b) = (well_typed \<sigma> a \<and> well_typed \<sigma> b)"
| "well_typed \<sigma> (ENeg a) = well_typed \<sigma> a"
| "well_typed \<sigma> (EMul a b) = (well_typed \<sigma> a \<and> well_typed \<sigma> b)"
| "well_typed \<sigma> (ESum a) = well_typed \<sigma> a"

subsection \<open>The formulation (lines 33 to 139)\<close>

definition active_returns :: "ndarray \<Rightarrow> ndarray \<Rightarrow> ndarray \<Rightarrow> variable \<Rightarrow> variable \<Rightarrow> expr" where
  "active_returns R r_c b w w_c =
     (let p = EAdd (EMatMul (EConst R) (EVar w)) (EMul (EConst r_c) (EVar w_c))
      in ESub p (EConst b))"

definition build_constraints ::
  "problem \<Rightarrow> ndarray \<Rightarrow> variable \<Rightarrow> variable \<Rightarrow> variable \<Rightarrow> variable \<Rightarrow> variable \<Rightarrow>
   variable \<Rightarrow> variable \<Rightarrow> constr list" where
  "build_constraints prob R w w_c s_lpm eta u z v =
     (let b = Arr (benchmark_scenarios prob);
          r_c = Arr (cash_scenarios prob);
          w_prev = Arr (prev_weights prob);
          betas = Arr (asset_betas prob);
          tau = lpm_threshold prob;
          a = active_returns R r_c b w w_c;
          delta_w = ESub (EVar w) (EConst w_prev);
          portfolio_beta = EMatMul (EConst betas) (EVar w);
          beta_dev = ESub portfolio_beta (EConst (Num (beta_target prob)))
      in [Eq_c (EAdd (ESum (EVar w)) (EVar w_c)) (EConst (Num 1)),
          Ge_c (EVar s_lpm) (ESub (EConst (Num tau)) a),
          Ge_c (EVar u) (ESub (ENeg a) (EVar eta)),
          Ge_c (EVar z) delta_w,
          Ge_c (EVar z) (ENeg delta_w),
          Ge_c (EVar v) beta_dev,
          Ge_c (EVar v) (ENeg beta_dev)])"

definition build_objective ::
  "problem \<Rightarrow> real \<Rightarrow> real \<Rightarrow> variable \<Rightarrow> variable \<Rightarrow> variable \<Rightarrow> variable \<Rightarrow> variable \<Rightarrow> objective" where
  "build_objective prob c_lpm c_cvar s_lpm eta u z v =
     (let lpm1_term = EMul (EConst (Num c_lpm)) (ESum (EVar s_lpm));
          cvar_term = EMul (EConst (Num (lambda_cvar prob)))
                        (EAdd (EVar eta) (EMul (EConst (Num c_cvar)) (ESum (EVar u))));
          turnover_term = EMul (EConst (Num (kappa prob))) (ESum (EVar z));
          beta_penalty_term = EMul (EConst (Num (lambda_beta prob * stress_weight prob))) (EVar v)
      in Minimize (EAdd (EAdd (EAdd lpm1_term cvar_term) turnover_term) beta_penalty_term))"

definition formulate :: "problem \<Rightarrow> py_error + cp_problem" where
  "formulate prob =
     (let N = n_assets prob; T = n_scenarios prob; alpha = cvar_alpha prob in
      bind_err (np_array2 (asset_scenarios prob)) (\<lambda>R.
      bind_err (cp_Variable Id_w (Some N) True) (\<lambda>w.
      bind_err (cp_Variable Id_w_c None True) (\<lambda>w_c.
      bind_err (cp_Variable Id_s_lpm (Some T) True) (\<lambda>s_lpm.
      bind_err (cp_Variable Id_eta None False) (\<lambda>eta.
      bind_err (cp_Variable Id_u (Some T) True) (\<lambda>u.
      bind_err (cp_Variable Id_z (Some N) True) (\<lambda>z.
      bind_err (cp_Variable Id_v None True) (\<lambda>v.
      let cs = build_constraints prob R w w_c s_lpm eta u z v in
      if \<not> list_all (\<lambda>c. constr_shape c \<noteq> None) cs then Inl ValueError
      else
      bind_err (py_div (lambda_lpm1 prob) (of_int T)) (\<lambda>c_lpm.
      bind_err (py_div 1 ((1 - alpha) * of_int T)) (\<lambda>c_cvar.
      Inr \<lparr> variables = [w, w_c, s_lpm, eta, u, z, v],
            objective = build_objective prob c_lpm c_cvar s_lpm eta u z v,
            constraints = cs \<rparr>)))))))))))"

subsection \<open>The solver cascade and the extraction (lines 141 to 198)\<close>

datatype solver = CLARABEL | SCS | OSQP

record solver_report =
  status :: string
  opt_value :: real
  primal :: assignment

text \<open>
  One call of \<^verbatim>\<open>problem.solve\<close>: it raises, or it returns and leaves the status, the
  objective value and the variables' values behind.  For a status of the optimal class the
  library provides the values; for any other status the program does not read them.
  \<open>Raised\<close> stands for an exception of class \<^verbatim>\<open>Exception\<close>, which the bare handlers of
  lines 145 and 148 and the handler of line 186 all catch; an interrupt of the process is
  not an outcome of a solver call and is not modelled.
\<close>

datatype attempt = Raised | Returned solver_report

text \<open>
  A back end may keep state between its calls (a licence, a warm start, a record of the
  calls made): a call takes the state and returns the new one with its outcome.
\<close>

type_synonym 'w stateful_backend = "solver \<Rightarrow> cp_problem \<Rightarrow> 'w \<Rightarrow> attempt \<times> 'w"

text \<open>
  The nested \<^verbatim>\<open>try\<close> of lines 143 to 149: each \<^verbatim>\<open>problem.solve\<close> is one call of the
  back end, and a handler runs only when the call it guards has raised.
\<close>

definition cascade :: "'w stateful_backend \<Rightarrow> cp_problem \<Rightarrow> 'w \<Rightarrow> attempt \<times> 'w" where
  "cascade call lp w =
     (case call CLARABEL lp w of
        (Returned r, w1) \<Rightarrow> (Returned r, w1)
      | (Raised, w1) \<Rightarrow>
          (case call SCS lp w1 of
             (Returned r, w2) \<Rightarrow> (Returned r, w2)
           | (Raised, w2) \<Rightarrow> call OSQP lp w2))"

text \<open>
  A back end that also keeps the log of its calls: every call appends the solver asked
  for and the outcome of the call, whoever makes the call.
\<close>

definition logging ::
  "'w stateful_backend \<Rightarrow> ('w \<times> (solver \<times> attempt) list) stateful_backend" where
  "logging call s lp =
     (\<lambda>(w, calls). case call s lp w of (a, w') \<Rightarrow> (a, (w', calls @ [(s, a)])))"

text \<open>
  A back end without state of its own, whose outcome depends on the solver and the
  program only.
\<close>

type_synonym backend = "solver \<Rightarrow> cp_problem \<Rightarrow> attempt"

definition stateless :: "backend \<Rightarrow> unit stateful_backend" where
  "stateless run s lp w = (run s lp, w)"


text \<open>
  The cascade on a back end without state: the solvers called, as the back end logged
  them, and the outcome the program inspects.
\<close>

definition solve_cascade :: "backend \<Rightarrow> cp_problem \<Rightarrow> solver list \<times> attempt" where
  "solve_cascade run lp =
     (case cascade (logging (stateless run)) lp ((), []) of
        (a, (w, calls)) \<Rightarrow> (map fst calls, a))"

definition fallback :: "problem \<Rightarrow> string \<Rightarrow> solution" where
  "fallback prob st =
     \<lparr> asset_weights = prev_weights prob,
       cash_weight = prev_cash prob,
       objective_value = PosInf,
       lpm1_value = 0,
       cvar_value = 0,
       turnover = 0,
       beta_penalty = 0,
       solver_status = st \<rparr>"

definition extract_solution :: "problem \<Rightarrow> solver_report \<Rightarrow> py_error + solution" where
  "extract_solution prob r =
     (let T = n_scenarios prob; alpha = cvar_alpha prob; s = stress_weight prob;
          \<sigma> = primal r in
      bind_err (py_div 1 (of_int T)) (\<lambda>k_lpm.
      bind_err (py_div 1 ((1 - alpha) * of_int T)) (\<lambda>k_cvar.
      Inr \<lparr> asset_weights = w_value \<sigma>,
            cash_weight = w_c_value \<sigma>,
            objective_value = Finite (opt_value r),
            lpm1_value = k_lpm * sum_list (s_lpm_value \<sigma>),
            cvar_value = eta_value \<sigma> + k_cvar * sum_list (u_value \<sigma>),
            turnover = sum_list (z_value \<sigma>),
            beta_penalty = s * v_value \<sigma>,
            solver_status = status r \<rparr>)))"

text \<open>The outer \<^verbatim>\<open>try\<close> of lines 141 to 198: every exception inside it yields the fallback.\<close>

definition solve_phase :: "backend \<Rightarrow> problem \<Rightarrow> cp_problem \<Rightarrow> solution" where
  "solve_phase run prob lp =
     (case snd (solve_cascade run lp) of
        Raised \<Rightarrow> fallback prob ''error''
      | Returned r \<Rightarrow>
          if status r \<notin> set [''optimal'', ''optimal_inaccurate'']
          then fallback prob (status r)
          else (case extract_solution prob r of
                  Inl e \<Rightarrow> fallback prob ''error''
                | Inr sol \<Rightarrow> sol))"

definition solve_core :: "backend \<Rightarrow> problem \<Rightarrow> py_error + solution" where
  "solve_core run prob = bind_err (formulate prob) (\<lambda>lp. Inr (solve_phase run prob lp))"

subsection \<open>The files (lines 29 to 31 and 200 to 204)\<close>

datatype document = Problem_doc problem | Solution_doc solution

type_synonym files = "string \<rightharpoonup> document"

definition load_problem :: "files \<Rightarrow> string \<Rightarrow> py_error + problem" where
  "load_problem fs problem_file =
     (case fs problem_file of
        None \<Rightarrow> Inl FileNotFoundError
      | Some (Solution_doc d) \<Rightarrow> Inl KeyError
      | Some (Problem_doc prob) \<Rightarrow> Inr prob)"

definition solve_portfolio_lp ::
  "backend \<Rightarrow> files \<Rightarrow> string \<Rightarrow> string \<Rightarrow> (py_error + solution) \<times> files" where
  "solve_portfolio_lp run fs problem_file solution_file =
     (case bind_err (load_problem fs problem_file) (solve_core run) of
        Inl e \<Rightarrow> (Inl e, fs)
      | Inr sol \<Rightarrow> (Inr sol, fs(solution_file \<mapsto> Solution_doc sol)))"

subsection \<open>The specification's reading of a problem and of its linear program\<close>

text \<open>
  The dimension invariant of the problem record: \<open>N\<close> and \<open>T\<close> are positive, the vectors
  over assets have length \<open>N\<close>, the vectors over scenarios length \<open>T\<close>, and the scenario
  matrix has \<open>T\<close> rows of \<open>N\<close> entries.
\<close>

definition dims_ok :: "problem \<Rightarrow> bool" where
  "dims_ok prob =
     (0 < n_assets prob \<and> 0 < n_scenarios prob \<and>
      int (length (prev_weights prob)) = n_assets prob \<and>
      int (length (asset_betas prob)) = n_assets prob \<and>
      list_all (\<lambda>row. int (length row) = n_assets prob) (asset_scenarios prob) \<and>
      int (length (benchmark_scenarios prob)) = n_scenarios prob \<and>
      int (length (cash_scenarios prob)) = n_scenarios prob \<and>
      int (length (asset_scenarios prob)) = n_scenarios prob)"

text \<open>An assignment whose vectors have the dimensions the variables were declared with.\<close>

definition shaped :: "problem \<Rightarrow> assignment \<Rightarrow> bool" where
  "shaped prob \<sigma> =
     (length (w_value \<sigma>) = nat (n_assets prob) \<and>
      length (s_lpm_value \<sigma>) = nat (n_scenarios prob) \<and>
      length (u_value \<sigma>) = nat (n_scenarios prob) \<and>
      length (z_value \<sigma>) = nat (n_assets prob))"

text \<open>The seven variable objects of lines 57 to 71, for dimensions that are not negative.\<close>

definition var_w :: "problem \<Rightarrow> variable" where
  "var_w prob = Variable Id_w (Vec_shape (nat (n_assets prob))) True"

definition var_w_c :: "variable" where
  "var_w_c = Variable Id_w_c Scalar_shape True"

definition var_s_lpm :: "problem \<Rightarrow> variable" where
  "var_s_lpm prob = Variable Id_s_lpm (Vec_shape (nat (n_scenarios prob))) True"

definition var_eta :: "variable" where
  "var_eta = Variable Id_eta Scalar_shape False"

definition var_u :: "problem \<Rightarrow> variable" where
  "var_u prob = Variable Id_u (Vec_shape (nat (n_scenarios prob))) True"

definition var_z :: "problem \<Rightarrow> variable" where
  "var_z prob = Variable Id_z (Vec_shape (nat (n_assets prob))) True"

definition var_v :: "variable" where
  "var_v = Variable Id_v Scalar_shape True"

text \<open>The program \<open>formulate\<close> returns on a problem that satisfies the invariant.\<close>

definition built_lp :: "problem \<Rightarrow> cp_problem" where
  "built_lp prob =
     \<lparr> variables = [var_w prob, var_w_c, var_s_lpm prob, var_eta, var_u prob, var_z prob, var_v],
       objective = build_objective prob (lambda_lpm1 prob / of_int (n_scenarios prob))
                     (1 / ((1 - cvar_alpha prob) * of_int (n_scenarios prob)))
                     (var_s_lpm prob) var_eta (var_u prob) (var_z prob) var_v,
       constraints = build_constraints prob (Mat (asset_scenarios prob)) (var_w prob) var_w_c
                       (var_s_lpm prob) var_eta (var_u prob) (var_z prob) var_v \<rparr>"

text \<open>
  The specification's formulas, written index by index: the active return of scenario \<open>t\<close>,
  the portfolio beta, the constraints, the variable domains and the objective.
\<close>

definition spec_active :: "problem \<Rightarrow> assignment \<Rightarrow> nat \<Rightarrow> real" where
  "spec_active prob \<sigma> t =
     (\<Sum>i<nat (n_assets prob). asset_scenarios prob ! t ! i * w_value \<sigma> ! i)
       + cash_scenarios prob ! t * w_c_value \<sigma> - benchmark_scenarios prob ! t"

definition spec_beta :: "problem \<Rightarrow> assignment \<Rightarrow> real" where
  "spec_beta prob \<sigma> = (\<Sum>i<nat (n_assets prob). asset_betas prob ! i * w_value \<sigma> ! i)"

definition spec_constraints :: "problem \<Rightarrow> assignment \<Rightarrow> bool" where
  "spec_constraints prob \<sigma> =
     (let N = nat (n_assets prob); T = nat (n_scenarios prob);
          wv = w_value \<sigma>; w_c = w_c_value \<sigma>; s_lpm = s_lpm_value \<sigma>; eta = eta_value \<sigma>;
          u = u_value \<sigma>; z = z_value \<sigma>; v = v_value \<sigma>;
          tau = lpm_threshold prob; a = spec_active prob \<sigma>;
          dev = spec_beta prob \<sigma> - beta_target prob
      in sum_list wv + w_c = 1 \<and>
         (\<forall>t<T. s_lpm ! t \<ge> tau - a t) \<and>
         (\<forall>t<T. u ! t \<ge> - a t - eta) \<and>
         (\<forall>i<N. z ! i \<ge> wv ! i - prev_weights prob ! i) \<and>
         (\<forall>i<N. z ! i \<ge> - (wv ! i - prev_weights prob ! i)) \<and>
         v \<ge> dev \<and> v \<ge> - dev)"

definition spec_domains :: "problem \<Rightarrow> assignment \<Rightarrow> bool" where
  "spec_domains prob \<sigma> =
     (let N = nat (n_assets prob); T = nat (n_scenarios prob) in
      (\<forall>i<N. 0 \<le> w_value \<sigma> ! i) \<and> 0 \<le> w_c_value \<sigma> \<and> (\<forall>t<T. 0 \<le> s_lpm_value \<sigma> ! t) \<and>
      (\<forall>t<T. 0 \<le> u_value \<sigma> ! t) \<and> (\<forall>i<N. 0 \<le> z_value \<sigma> ! i) \<and> 0 \<le> v_value \<sigma>)"

definition spec_objective :: "problem \<Rightarrow> assignment \<Rightarrow> real" where
  "spec_objective prob \<sigma> =
     (let T = real_of_int (n_scenarios prob); alpha = cvar_alpha prob in
      lambda_lpm1 prob * (1 / T) * sum_list (s_lpm_value \<sigma>)
      + lambda_cvar prob * (eta_value \<sigma> + (1 / ((1 - alpha) * T)) * sum_list (u_value \<sigma>))
      + kappa prob * sum_list (z_value \<sigma>)
      + lambda_beta prob * stress_weight prob * v_value \<sigma>)"

text \<open>The turnover recomputed directly from the weights.\<close>

definition abs_turnover :: "problem \<Rightarrow> real list \<Rightarrow> real" where
  "abs_turnover prob ws = (\<Sum>i<nat (n_assets prob). \<bar>ws ! i - prev_weights prob ! i\<bar>)"

text \<open>
  What a back end promises for a status of the optimal class: its point satisfies the
  program within the tolerance \<open>eps\<close>, and its objective is within \<open>gap\<close> of the objective
  of every point that satisfies the program within that tolerance.
\<close>

definition optimal_within :: "real \<Rightarrow> real \<Rightarrow> cp_problem \<Rightarrow> assignment \<Rightarrow> bool" where
  "optimal_within eps gap lp \<sigma> =
     (feasible eps lp \<sigma> \<and>
      (\<forall>\<sigma>'. feasible eps lp \<sigma>' \<longrightarrow>
         (\<exists>x y. objective_at lp \<sigma> = Some x \<and> objective_at lp \<sigma>' = Some y \<and> x \<le> y + gap)))"

text \<open>The vectors of the intermediate expressions, and the assignment with tight turnover slack.\<close>

definition active_list :: "problem \<Rightarrow> assignment \<Rightarrow> real list" where
  "active_list prob \<sigma> =
     map2 (-) (map2 (+) (map (\<lambda>r. dot r (w_value \<sigma>)) (asset_scenarios prob))
                        (map (\<lambda>x. x * w_c_value \<sigma>) (cash_scenarios prob)))
              (benchmark_scenarios prob)"

definition tightened :: "problem \<Rightarrow> assignment \<Rightarrow> assignment" where
  "tightened prob \<sigma> = \<sigma>\<lparr> z_value := map2 (\<lambda>x p. \<bar>x - p\<bar>) (w_value \<sigma>) (prev_weights prob) \<rparr>"

subsection \<open>Concrete problems, assignments and back ends\<close>

text \<open>The concrete scenario of the specification: two assets, three scenarios.\<close>

definition example_problem :: problem where
  "example_problem =
     \<lparr> n_assets = 2, n_scenarios = 3,
       asset_scenarios = [[1/100, -2/100], [3/100, 1/100], [-1/100, 4/100]],
       benchmark_scenarios = [0, 2/100, 1/100],
       cash_scenarios = [0, 0, 0],
       prev_weights = [1/2, 1/2],
       prev_cash = 0,
       asset_betas = [1, 1/2],
       stress_weight = 1,
       lambda_lpm1 = 1, lambda_cvar = 1/2, lambda_beta = 1,
       kappa = 1/10, lpm_threshold = 0, cvar_alpha = 8/10, beta_target = 6/10 \<rparr>"

text \<open>A feasible point of that problem: the previous portfolio with tight slacks.\<close>

definition example_assignment :: assignment where
  "example_assignment =
     \<lparr> w_value = [1/2, 1/2], w_c_value = 0, s_lpm_value = [5/1000, 0, 0], eta_value = 0,
       u_value = [5/1000, 0, 0], z_value = [0, 0], v_value = 15/100 \<rparr>"

definition example_report :: "string \<Rightarrow> solver_report" where
  "example_report st = \<lparr> status = st, opt_value = 187/1200, primal = example_assignment \<rparr>"

text \<open>A problem with one asset and one scenario, with the turnover coefficient as parameter.\<close>

definition single_asset_problem :: "real \<Rightarrow> problem" where
  "single_asset_problem k =
     \<lparr> n_assets = 1, n_scenarios = 1,
       asset_scenarios = [[1/100]],
       benchmark_scenarios = [0],
       cash_scenarios = [0],
       prev_weights = [1],
       prev_cash = 0,
       asset_betas = [1],
       stress_weight = 1,
       lambda_lpm1 = 1, lambda_cvar = 0, lambda_beta = 0,
       kappa = k, lpm_threshold = 0, cvar_alpha = 1/2, beta_target = 1 \<rparr>"

text \<open>The previous portfolio of that problem, with turnover slack \<open>zv\<close>.\<close>

definition single_asset_assignment :: "real \<Rightarrow> assignment" where
  "single_asset_assignment zv =
     \<lparr> w_value = [1], w_c_value = 0, s_lpm_value = [0], eta_value = 0,
       u_value = [0], z_value = [zv], v_value = 0 \<rparr>"

definition single_asset_report :: "real \<Rightarrow> solver_report" where
  "single_asset_report zv =
     \<lparr> status = ''optimal'', opt_value = 0, primal = single_asset_assignment zv \<rparr>"

text \<open>
  A problem with one asset and one scenario in which moving from cash into the asset pays:
  the asset returns 1, cash returns 0, the benchmark returns 1, the previous portfolio is
  all cash.
\<close>

definition mover_problem :: problem where
  "mover_problem =
     \<lparr> n_assets = 1, n_scenarios = 1,
       asset_scenarios = [[1]],
       benchmark_scenarios = [1],
       cash_scenarios = [0],
       prev_weights = [0],
       prev_cash = 1,
       asset_betas = [1],
       stress_weight = 1,
       lambda_lpm1 = 1, lambda_cvar = 0, lambda_beta = 0,
       kappa = 1/2, lpm_threshold = 0, cvar_alpha = 1/2, beta_target = 1 \<rparr>"

text \<open>
  A point as a numerical back end returns it for that problem: all in the asset, the
  budget off by 1/2000 and the turnover slack 1/1000 above the move.
\<close>

definition mover_assignment :: assignment where
  "mover_assignment =
     \<lparr> w_value = [1], w_c_value = 1/2000, s_lpm_value = [0], eta_value = 0,
       u_value = [0], z_value = [1001/1000], v_value = 0 \<rparr>"

definition mover_report :: solver_report where
  "mover_report = \<lparr> status = ''optimal'', opt_value = 1001/2000, primal = mover_assignment \<rparr>"

text \<open>Back ends: every solver raises; every solver reports a fixed result; the first
  solver raises and the second reports a fixed result.\<close>

definition run_all_raise :: backend where
  "run_all_raise s lp = Raised"

definition run_report :: "solver_report \<Rightarrow> backend" where
  "run_report r s lp = Returned r"

definition run_second :: "solver_report \<Rightarrow> backend" where
  "run_second r s lp = (if s = CLARABEL then Raised else Returned r)"

definition example_files :: "problem \<Rightarrow> files" where
  "example_files prob = [''problem.json'' \<mapsto> Problem_doc prob]"

section \<open>Properties\<close>

subsection \<open>The shape check agrees with evaluation\<close>

text \<open>
  The library's shape check and the evaluation of expressions are two definitions; on
  well-typed expressions they agree: an expression has a shape exactly when it has a
  value, and the shape is that of the value.
\<close>

lemma rectangular_np_neg: "rectangular c \<Longrightarrow> rectangular (np_neg c)"
  by (cases c) (auto split: list.splits simp: list_all_iff)

lemma shape_np_neg: "shape_val (np_neg c) = shape_val c"
  by (cases c) (auto split: list.splits)

lemma shape_elementwise:
  "map_option shape_val (elementwise f x y) = broadcast (shape_val x) (shape_val y)"
  by (cases x; cases y) auto

lemma rectangular_elementwise: "elementwise f x y = Some v \<Longrightarrow> rectangular v"
  by (cases x; cases y) (auto split: if_splits)

lemma shape_matmul:
  assumes "rectangular x"
  shows "map_option shape_val (matmul x y) = matmul_shape (shape_val x) (shape_val y)"
proof (cases x)
  case (Mat rows)
  with assms obtain r rs where rr: "rows = r # rs" and eq: "list_all (\<lambda>q. length q = length r) rs"
    by (cases rows) auto
  show ?thesis
  proof (cases y)
    case (Arr xs)
    from eq have "list_all (\<lambda>q. length q = length xs) rs = (length r = length xs \<or> rs = [])"
      by (cases rs) (auto simp: list_all_iff)
    with Mat Arr rr eq show ?thesis by (auto simp: list_all_iff)
  qed (simp_all add: Mat)
next
  case (Arr ys)
  then show ?thesis by (cases y) auto
next
  case (Num a)
  then show ?thesis by simp
qed

lemma rectangular_matmul: "matmul x y = Some v \<Longrightarrow> rectangular v"
  by (cases x; cases y) (auto split: if_splits)

lemma eval_has_shape:
  assumes "well_typed \<sigma> e"
  shows "shape_of e = map_option shape_val (eval \<sigma> e)
         \<and> (\<forall>v. eval \<sigma> e = Some v \<longrightarrow> rectangular v)"
  using assms
proof (induction e)
  case (EVar x)
  then show ?case by (cases "var_id x") auto
next
  case (EConst c)
  then show ?case by simp
next
  case (EMatMul a b)
  then have sa: "shape_of a = map_option shape_val (eval \<sigma> a)"
    and sb: "shape_of b = map_option shape_val (eval \<sigma> b)"
    and ra: "\<forall>v. eval \<sigma> a = Some v \<longrightarrow> rectangular v"
    by simp_all
  show ?case
    using ra by (cases "eval \<sigma> a"; cases "eval \<sigma> b")
       (auto simp: sa sb shape_matmul dest: rectangular_matmul)
next
  case (EAdd a b)
  then have sa: "shape_of a = map_option shape_val (eval \<sigma> a)"
    and sb: "shape_of b = map_option shape_val (eval \<sigma> b)"
    by simp_all
  show ?case
    by (cases "eval \<sigma> a"; cases "eval \<sigma> b")
       (auto simp: sa sb shape_elementwise dest: rectangular_elementwise)
next
  case (ESub a b)
  then have sa: "shape_of a = map_option shape_val (eval \<sigma> a)"
    and sb: "shape_of b = map_option shape_val (eval \<sigma> b)"
    by simp_all
  show ?case
    by (cases "eval \<sigma> a"; cases "eval \<sigma> b")
       (auto simp: sa sb shape_elementwise dest: rectangular_elementwise)
next
  case (ENeg a)
  then show ?case
    by (cases "eval \<sigma> a") (auto simp: shape_np_neg rectangular_np_neg)
next
  case (EMul a b)
  then have sa: "shape_of a = map_option shape_val (eval \<sigma> a)"
    and sb: "shape_of b = map_option shape_val (eval \<sigma> b)"
    by simp_all
  show ?case
    by (cases "eval \<sigma> a"; cases "eval \<sigma> b")
       (auto simp: sa sb shape_elementwise dest: rectangular_elementwise)
next
  case (ESum a)
  then have sa: "shape_of a = map_option shape_val (eval \<sigma> a)" by simp
  have n: "shape_val (np_sum v) = Scalar_shape" "rectangular (np_sum v)" for v
    by (cases v; simp)+
  show ?case
    by (cases "eval \<sigma> a") (auto simp: sa n)
qed

lemma residual_defined:
  assumes "well_typed \<sigma> l" and "well_typed \<sigma> r" and "constr_shape (Ge_c l r) \<noteq> None"
  shows "eval \<sigma> (ESub l r) \<noteq> None"
proof -
  from assms(1,2) have "well_typed \<sigma> (ESub l r)" by simp
  from eval_has_shape [OF this] assms(3) show ?thesis by auto
qed

subsection \<open>The formulation succeeds exactly as built\<close>

lemmas var_defs = var_w_def var_w_c_def var_s_lpm_def var_eta_def var_u_def var_z_def var_v_def

lemma np_array2_ok:
  assumes "dims_ok prob"
  shows "np_array2 (asset_scenarios prob) = Inr (Mat (asset_scenarios prob))"
proof -
  from assms have ne: "asset_scenarios prob \<noteq> []"
    and rows: "list_all (\<lambda>row. int (length row) = n_assets prob) (asset_scenarios prob)"
    by (auto simp: dims_ok_def)
  then obtain r rs where rr: "asset_scenarios prob = r # rs"
    by (cases "asset_scenarios prob") auto
  with rows have "list_all (\<lambda>q. length q = length r) rs"
    by (auto simp: list_all_iff)
  with rr show ?thesis by (simp add: np_array2_def)
qed

lemma shape_val_scenarios:
  assumes "dims_ok prob"
  shows "shape_val (Mat (asset_scenarios prob)) =
         Mat_shape (nat (n_scenarios prob)) (nat (n_assets prob))"
proof -
  from assms have ne: "asset_scenarios prob \<noteq> []"
    and len: "int (length (asset_scenarios prob)) = n_scenarios prob"
    and rows: "list_all (\<lambda>row. int (length row) = n_assets prob) (asset_scenarios prob)"
    by (auto simp: dims_ok_def)
  then obtain r rs where rr: "asset_scenarios prob = r # rs"
    by (cases "asset_scenarios prob") auto
  with rows have "int (length r) = n_assets prob" by simp
  then have "length r = nat (n_assets prob)" by simp
  moreover from len have "length (asset_scenarios prob) = nat (n_scenarios prob)" by simp
  ultimately show ?thesis using rr by simp
qed

lemma constraints_shapes_ok:
  assumes "dims_ok prob"
  shows "list_all (\<lambda>c. constr_shape c \<noteq> None) (constraints (built_lp prob))"
proof -
  have sv: "shape_val (Mat (asset_scenarios prob)) =
         Mat_shape (nat (n_scenarios prob)) (nat (n_assets prob))"
    by (rule shape_val_scenarios [OF assms])
  from assms have l: "length (prev_weights prob) = nat (n_assets prob)"
    "length (asset_betas prob) = nat (n_assets prob)"
    "length (benchmark_scenarios prob) = nat (n_scenarios prob)"
    "length (cash_scenarios prob) = nat (n_scenarios prob)"
    "0 < nat (n_scenarios prob)"
    by (auto simp: dims_ok_def)
  show ?thesis
    unfolding built_lp_def build_constraints_def active_returns_def Let_def var_defs
    using l by (simp add: sv del: shape_val.simps(3))
qed

lemma formulate_checked:
  assumes "dims_ok prob"
  shows "formulate prob =
     (if cvar_alpha prob = 1 then Inl ZeroDivisionError else Inr (built_lp prob))"
proof -
  from assms have pos: "0 < n_assets prob" "0 < n_scenarios prob"
    by (auto simp: dims_ok_def)
  have cs: "list_all (\<lambda>c. constr_shape c \<noteq> None)
     (build_constraints prob (Mat (asset_scenarios prob)) (var_w prob) var_w_c
                       (var_s_lpm prob) var_eta (var_u prob) (var_z prob) var_v)"
    using constraints_shapes_ok [OF assms] by (simp add: built_lp_def)
  show ?thesis
    unfolding formulate_def Let_def
    using pos cs
    by (simp add: np_array2_ok [OF assms] bind_err_def cp_Variable_def py_div_def
          built_lp_def var_defs)
qed

lemma formulate_ok:
  assumes "dims_ok prob" and "cvar_alpha prob \<noteq> 1"
  shows "formulate prob = Inr (built_lp prob)"
  using assms by (simp add: formulate_checked)

lemma formulate_Inr:
  assumes "formulate prob = Inr lp"
  shows "0 \<le> n_assets prob \<and> 0 < n_scenarios prob \<and> cvar_alpha prob \<noteq> 1 \<and>
         (\<exists>R. lp = (built_lp prob)\<lparr> constraints :=
                  build_constraints prob R (var_w prob) var_w_c
                       (var_s_lpm prob) var_eta (var_u prob) (var_z prob) var_v \<rparr>)"
  using assms
  unfolding formulate_def Let_def bind_err_def cp_Variable_def py_div_def built_lp_def var_defs
  by (auto split: sum.splits if_splits option.splits)

lemma formulate_Inl:
  assumes "formulate prob = Inl e"
  shows "e = ValueError \<or> e = ZeroDivisionError"
  using assms
  unfolding formulate_def Let_def bind_err_def cp_Variable_def py_div_def np_array2_def
  by (auto split: sum.splits if_splits option.splits list.splits)

lemma formulate_alpha_one:
  assumes "cvar_alpha prob = 1"
  shows "\<exists>e. formulate prob = Inl e"
proof (cases "formulate prob")
  case (Inl e)
  then show ?thesis by blast
next
  case (Inr lp)
  with assms show ?thesis using formulate_Inr [of prob lp] by simp
qed

subsection \<open>The meaning of the built expressions\<close>

lemma dot_sum:
  assumes "length xs = n" and "length ys = n"
  shows "dot xs ys = (\<Sum>i<n. xs ! i * ys ! i)"
proof -
  have "dot xs ys = (\<Sum>i = 0..<length (map2 (*) xs ys). map2 (*) xs ys ! i)"
    unfolding dot_def by (rule sum_list_sum_nth)
  also have "\<dots> = (\<Sum>i = 0..<n. xs ! i * ys ! i)"
    using assms by (intro sum.cong) auto
  finally show ?thesis by (simp add: lessThan_atLeast0)
qed

lemma sum_list_lessThan: "length xs = n \<Longrightarrow> sum_list xs = (\<Sum>i<n. xs ! i)"
  by (simp add: sum_list_sum_nth lessThan_atLeast0)

lemma eval_active:
  assumes d: "dims_ok prob" and s: "shaped prob \<sigma>"
  shows "eval \<sigma> (active_returns (Mat (asset_scenarios prob)) (Arr (cash_scenarios prob))
                  (Arr (benchmark_scenarios prob)) (var_w prob) var_w_c)
         = Some (Arr (active_list prob \<sigma>))"
proof -
  from d have rows: "list_all (\<lambda>r. length r = length (w_value \<sigma>)) (asset_scenarios prob)"
    using s by (auto simp: dims_ok_def shaped_def list_all_iff)
  from d have ne: "asset_scenarios prob \<noteq> []" by (auto simp: dims_ok_def)
  from d have l: "length (cash_scenarios prob) = length (asset_scenarios prob)"
     "length (benchmark_scenarios prob) = length (asset_scenarios prob)"
    by (auto simp: dims_ok_def)
  show ?thesis
    unfolding active_returns_def Let_def active_list_def var_defs
    using rows ne l by simp
qed

lemma length_active_list:
  assumes d: "dims_ok prob"
  shows "length (active_list prob \<sigma>) = nat (n_scenarios prob)"
  using d by (auto simp: active_list_def dims_ok_def)

lemma nth_active_list:
  assumes d: "dims_ok prob" and s: "shaped prob \<sigma>" and t: "t < nat (n_scenarios prob)"
  shows "active_list prob \<sigma> ! t = spec_active prob \<sigma> t"
proof -
  from d t have lt: "t < length (asset_scenarios prob)" "t < length (cash_scenarios prob)"
    "t < length (benchmark_scenarios prob)"
    by (auto simp: dims_ok_def)
  from d lt(1) have "length (asset_scenarios prob ! t) = nat (n_assets prob)"
    by (auto simp: dims_ok_def list_all_length)
  moreover from s have "length (w_value \<sigma>) = nat (n_assets prob)" by (simp add: shaped_def)
  ultimately have "dot (asset_scenarios prob ! t) (w_value \<sigma>) =
      (\<Sum>i<nat (n_assets prob). asset_scenarios prob ! t ! i * w_value \<sigma> ! i)"
    by (rule dot_sum)
  then show ?thesis
    using lt by (simp add: active_list_def spec_active_def)
qed

lemma eval_beta:
  assumes d: "dims_ok prob" and s: "shaped prob \<sigma>"
  shows "eval \<sigma> (EMatMul (EConst (Arr (asset_betas prob))) (EVar (var_w prob)))
         = Some (Num (spec_beta prob \<sigma>))"
proof -
  from d s have l: "length (asset_betas prob) = nat (n_assets prob)"
    "length (w_value \<sigma>) = nat (n_assets prob)"
    by (auto simp: dims_ok_def shaped_def)
  then have "dot (asset_betas prob) (w_value \<sigma>) = spec_beta prob \<sigma>"
    unfolding spec_beta_def by (rule dot_sum)
  then show ?thesis using l by (simp add: var_defs)
qed

lemma holds_budget:
  "holds eps \<sigma> (Eq_c (EAdd (ESum (EVar (var_w prob))) (EVar var_w_c)) (EConst (Num 1)))
   = (\<bar>sum_list (w_value \<sigma>) + w_c_value \<sigma> - 1\<bar> \<le> eps)"
  by (simp add: var_defs)

lemma holds_lpm:
  assumes d: "dims_ok prob" and s: "shaped prob \<sigma>"
  shows "holds eps \<sigma> (Ge_c (EVar (var_s_lpm prob)) (ESub (EConst (Num (lpm_threshold prob)))
            (active_returns (Mat (asset_scenarios prob)) (Arr (cash_scenarios prob))
                  (Arr (benchmark_scenarios prob)) (var_w prob) var_w_c)))
   = (\<forall>t<nat (n_scenarios prob).
        - eps \<le> s_lpm_value \<sigma> ! t - (lpm_threshold prob - spec_active prob \<sigma> t))"
proof -
  have l: "length (s_lpm_value \<sigma>) = nat (n_scenarios prob)"
    "length (active_list prob \<sigma>) = nat (n_scenarios prob)"
    using s length_active_list [OF d] by (simp_all add: shaped_def)
  show ?thesis
    using l nth_active_list [OF d s]
    by (simp add: eval_active [OF d s] list_all_length var_s_lpm_def)
qed

lemma holds_cvar:
  assumes d: "dims_ok prob" and s: "shaped prob \<sigma>"
  shows "holds eps \<sigma> (Ge_c (EVar (var_u prob)) (ESub (ENeg
            (active_returns (Mat (asset_scenarios prob)) (Arr (cash_scenarios prob))
                  (Arr (benchmark_scenarios prob)) (var_w prob) var_w_c)) (EVar var_eta)))
   = (\<forall>t<nat (n_scenarios prob).
        - eps \<le> u_value \<sigma> ! t - (- spec_active prob \<sigma> t - eta_value \<sigma>))"
proof -
  have l: "length (u_value \<sigma>) = nat (n_scenarios prob)"
    "length (active_list prob \<sigma>) = nat (n_scenarios prob)"
    using s length_active_list [OF d] by (simp_all add: shaped_def)
  show ?thesis
    using l nth_active_list [OF d s]
    by (simp add: eval_active [OF d s] list_all_length var_u_def var_eta_def)
qed

lemma holds_turnover_up:
  assumes d: "dims_ok prob" and s: "shaped prob \<sigma>"
  shows "holds eps \<sigma> (Ge_c (EVar (var_z prob))
            (ESub (EVar (var_w prob)) (EConst (Arr (prev_weights prob)))))
   = (\<forall>i<nat (n_assets prob).
        - eps \<le> z_value \<sigma> ! i - (w_value \<sigma> ! i - prev_weights prob ! i))"
proof -
  have l: "length (z_value \<sigma>) = nat (n_assets prob)" "length (w_value \<sigma>) = nat (n_assets prob)"
    "length (prev_weights prob) = nat (n_assets prob)"
    using s d by (auto simp: shaped_def dims_ok_def)
  show ?thesis using l by (simp add: list_all_length var_z_def var_w_def)
qed

lemma holds_turnover_down:
  assumes d: "dims_ok prob" and s: "shaped prob \<sigma>"
  shows "holds eps \<sigma> (Ge_c (EVar (var_z prob))
            (ENeg (ESub (EVar (var_w prob)) (EConst (Arr (prev_weights prob))))))
   = (\<forall>i<nat (n_assets prob).
        - eps \<le> z_value \<sigma> ! i - (- (w_value \<sigma> ! i - prev_weights prob ! i)))"
proof -
  have l: "length (z_value \<sigma>) = nat (n_assets prob)" "length (w_value \<sigma>) = nat (n_assets prob)"
    "length (prev_weights prob) = nat (n_assets prob)"
    using s d by (auto simp: shaped_def dims_ok_def)
  show ?thesis using l by (simp add: list_all_length var_z_def var_w_def)
qed

lemma holds_beta_up:
  assumes d: "dims_ok prob" and s: "shaped prob \<sigma>"
  shows "holds eps \<sigma> (Ge_c (EVar var_v)
            (ESub (EMatMul (EConst (Arr (asset_betas prob))) (EVar (var_w prob)))
                  (EConst (Num (beta_target prob)))))
   = (- eps \<le> v_value \<sigma> - (spec_beta prob \<sigma> - beta_target prob))"
  using eval_beta [OF d s] by (simp add: var_defs)

lemma holds_beta_down:
  assumes d: "dims_ok prob" and s: "shaped prob \<sigma>"
  shows "holds eps \<sigma> (Ge_c (EVar var_v)
            (ENeg (ESub (EMatMul (EConst (Arr (asset_betas prob))) (EVar (var_w prob)))
                  (EConst (Num (beta_target prob))))))
   = (- eps \<le> v_value \<sigma> - (- (spec_beta prob \<sigma> - beta_target prob)))"
  using eval_beta [OF d s] by (simp add: var_defs)

lemma constraints_hold_iff:
  assumes d: "dims_ok prob" and s: "shaped prob \<sigma>"
  shows "list_all (holds eps \<sigma>) (constraints (built_lp prob)) =
     (\<bar>sum_list (w_value \<sigma>) + w_c_value \<sigma> - 1\<bar> \<le> eps \<and>
      (\<forall>t<nat (n_scenarios prob).
          - eps \<le> s_lpm_value \<sigma> ! t - (lpm_threshold prob - spec_active prob \<sigma> t)) \<and>
      (\<forall>t<nat (n_scenarios prob).
          - eps \<le> u_value \<sigma> ! t - (- spec_active prob \<sigma> t - eta_value \<sigma>)) \<and>
      (\<forall>i<nat (n_assets prob).
          - eps \<le> z_value \<sigma> ! i - (w_value \<sigma> ! i - prev_weights prob ! i)) \<and>
      (\<forall>i<nat (n_assets prob).
          - eps \<le> z_value \<sigma> ! i - (- (w_value \<sigma> ! i - prev_weights prob ! i))) \<and>
      - eps \<le> v_value \<sigma> - (spec_beta prob \<sigma> - beta_target prob) \<and>
      - eps \<le> v_value \<sigma> - (- (spec_beta prob \<sigma> - beta_target prob)))"
  by (simp only: built_lp_def build_constraints_def Let_def cp_problem.simps list.pred_inject
    holds_budget holds_lpm [OF d s] holds_cvar [OF d s] holds_turnover_up [OF d s]
    holds_turnover_down [OF d s] holds_beta_up [OF d s] holds_beta_down [OF d s] simp_thms)

lemma constraints_iff_spec:
  assumes d: "dims_ok prob" and s: "shaped prob \<sigma>"
  shows "list_all (holds 0 \<sigma>) (constraints (built_lp prob)) = spec_constraints prob \<sigma>"
  unfolding constraints_hold_iff [OF d s] spec_constraints_def Let_def
  by auto

lemma domains_iff:
  "list_all (in_domain eps \<sigma>) (variables (built_lp prob)) =
     (shaped prob \<sigma> \<and>
      list_all (\<lambda>y. - eps \<le> y) (w_value \<sigma>) \<and> - eps \<le> w_c_value \<sigma> \<and>
      list_all (\<lambda>y. - eps \<le> y) (s_lpm_value \<sigma>) \<and> list_all (\<lambda>y. - eps \<le> y) (u_value \<sigma>) \<and>
      list_all (\<lambda>y. - eps \<le> y) (z_value \<sigma>) \<and> - eps \<le> v_value \<sigma>)"
  by (auto simp: built_lp_def in_domain_def var_defs shaped_def)

lemma domains_iff_spec:
  assumes s: "shaped prob \<sigma>"
  shows "list_all (in_domain 0 \<sigma>) (variables (built_lp prob)) = spec_domains prob \<sigma>"
proof -
  have l: "length (w_value \<sigma>) = nat (n_assets prob)"
    "length (s_lpm_value \<sigma>) = nat (n_scenarios prob)"
    "length (u_value \<sigma>) = nat (n_scenarios prob)"
    "length (z_value \<sigma>) = nat (n_assets prob)"
    using s by (simp_all add: shaped_def)
  show ?thesis
    unfolding domains_iff spec_domains_def Let_def
    using s by (simp add: list_all_length l)
qed

lemma feasible_shaped: "feasible eps (built_lp prob) \<sigma> \<Longrightarrow> shaped prob \<sigma>"
  by (simp add: feasible_def domains_iff)

lemma feasible_iff_spec:
  assumes d: "dims_ok prob" and s: "shaped prob \<sigma>"
  shows "feasible 0 (built_lp prob) \<sigma> = (spec_constraints prob \<sigma> \<and> spec_domains prob \<sigma>)"
  unfolding feasible_def constraints_iff_spec [OF d s] domains_iff_spec [OF s]
  by auto

lemma eval_build_objective:
  "eval \<sigma> (objective_expr (build_objective prob c1 c2 (var_s_lpm prob) var_eta (var_u prob)
       (var_z prob) var_v))
   = Some (Num (c1 * sum_list (s_lpm_value \<sigma>)
      + lambda_cvar prob * (eta_value \<sigma> + c2 * sum_list (u_value \<sigma>))
      + kappa prob * sum_list (z_value \<sigma>)
      + lambda_beta prob * stress_weight prob * v_value \<sigma>))"
  by (simp add: build_objective_def Let_def var_defs)

lemma objective_at_built:
  "objective_at (built_lp prob) \<sigma> = Some (spec_objective prob \<sigma>)"
  by (simp add: objective_at_def built_lp_def eval_build_objective spec_objective_def Let_def)

subsection \<open>The solve phase\<close>

lemma extract_ok:
  assumes "n_scenarios prob \<noteq> 0" and "cvar_alpha prob \<noteq> 1"
  shows "extract_solution prob r =
     Inr \<lparr> asset_weights = w_value (primal r),
           cash_weight = w_c_value (primal r),
           objective_value = Finite (opt_value r),
           lpm1_value = (1 / of_int (n_scenarios prob)) * sum_list (s_lpm_value (primal r)),
           cvar_value = eta_value (primal r)
              + (1 / ((1 - cvar_alpha prob) * of_int (n_scenarios prob)))
                  * sum_list (u_value (primal r)),
           turnover = sum_list (z_value (primal r)),
           beta_penalty = stress_weight prob * v_value (primal r),
           solver_status = status r \<rparr>"
  using assms by (simp add: extract_solution_def Let_def bind_err_def py_div_def)

lemma extract_after_formulate:
  assumes "formulate prob = Inr lp"
  shows "extract_solution prob r =
     Inr \<lparr> asset_weights = w_value (primal r),
           cash_weight = w_c_value (primal r),
           objective_value = Finite (opt_value r),
           lpm1_value = (1 / of_int (n_scenarios prob)) * sum_list (s_lpm_value (primal r)),
           cvar_value = eta_value (primal r)
              + (1 / ((1 - cvar_alpha prob) * of_int (n_scenarios prob)))
                  * sum_list (u_value (primal r)),
           turnover = sum_list (z_value (primal r)),
           beta_penalty = stress_weight prob * v_value (primal r),
           solver_status = status r \<rparr>"
  using formulate_Inr [OF assms] by (intro extract_ok) auto

lemma solve_core_formulated:
  assumes "formulate prob = Inr lp"
  shows "solve_core run prob = Inr (solve_phase run prob lp)"
  using assms by (simp add: solve_core_def bind_err_def)

lemma solve_core_failed:
  assumes "formulate prob = Inl e"
  shows "solve_core run prob = Inl e"
  using assms by (simp add: solve_core_def bind_err_def)

lemma solve_portfolio_lp_loaded:
  assumes "load_problem fs problem_file = Inr prob"
  shows "solve_portfolio_lp run fs problem_file solution_file =
     (case solve_core run prob of
        Inl e \<Rightarrow> (Inl e, fs)
      | Inr sol \<Rightarrow> (Inr sol, fs(solution_file \<mapsto> Solution_doc sol)))"
  using assms by (simp add: solve_portfolio_lp_def bind_err_def)

lemma solve_phase_raised:
  assumes "snd (solve_cascade run lp) = Raised"
  shows "solve_phase run prob lp = fallback prob ''error''"
  using assms by (simp add: solve_phase_def)

lemma solve_phase_rejected:
  assumes "snd (solve_cascade run lp) = Returned r"
    and "status r \<noteq> ''optimal''" and "status r \<noteq> ''optimal_inaccurate''"
  shows "solve_phase run prob lp = fallback prob (status r)"
  using assms by (simp add: solve_phase_def)

lemma solve_phase_accepted:
  assumes "formulate prob = Inr lp" and "snd (solve_cascade run lp) = Returned r"
    and "status r = ''optimal'' \<or> status r = ''optimal_inaccurate''"
  shows "solve_phase run prob lp =
     \<lparr> asset_weights = w_value (primal r),
       cash_weight = w_c_value (primal r),
       objective_value = Finite (opt_value r),
       lpm1_value = (1 / of_int (n_scenarios prob)) * sum_list (s_lpm_value (primal r)),
       cvar_value = eta_value (primal r)
          + (1 / ((1 - cvar_alpha prob) * of_int (n_scenarios prob)))
              * sum_list (u_value (primal r)),
       turnover = sum_list (z_value (primal r)),
       beta_penalty = stress_weight prob * v_value (primal r),
       solver_status = status r \<rparr>"
  using assms(2,3) by (auto simp: solve_phase_def extract_after_formulate [OF assms(1)])

lemma logging_records:
  "logging call s lp (w, calls) =
     (fst (call s lp w), (snd (call s lp w), calls @ [(s, fst (call s lp w))]))"
  by (simp add: logging_def split: prod.splits)

lemma solve_cascade_unfold:
  "solve_cascade run lp =
     (case run CLARABEL lp of
        Returned r \<Rightarrow> ([CLARABEL], Returned r)
      | Raised \<Rightarrow>
          (case run SCS lp of
             Returned r \<Rightarrow> ([CLARABEL, SCS], Returned r)
           | Raised \<Rightarrow> ([CLARABEL, SCS, OSQP], run OSQP lp)))"
  by (simp add: solve_cascade_def cascade_def logging_def stateless_def split: attempt.splits)

lemma cascade_cases:
  "solve_cascade run lp = ([CLARABEL], run CLARABEL lp) \<and> (\<exists>r. run CLARABEL lp = Returned r)
   \<or> solve_cascade run lp = ([CLARABEL, SCS], run SCS lp) \<and> run CLARABEL lp = Raised
        \<and> (\<exists>r. run SCS lp = Returned r)
   \<or> solve_cascade run lp = ([CLARABEL, SCS, OSQP], run OSQP lp) \<and> run CLARABEL lp = Raised
        \<and> run SCS lp = Raised"
  by (auto simp: solve_cascade_unfold split: attempt.splits)

lemma budget_of_feasible:
  assumes "formulate prob = Inr lp" and "feasible eps lp \<sigma>"
  shows "\<bar>sum_list (w_value \<sigma>) + w_c_value \<sigma> - 1\<bar> \<le> eps"
proof -
  from formulate_Inr [OF assms(1)] obtain R where
    "lp = (built_lp prob)\<lparr> constraints :=
                  build_constraints prob R (var_w prob) var_w_c
                       (var_s_lpm prob) var_eta (var_u prob) (var_z prob) var_v \<rparr>"
    by blast
  then have "constraints lp = build_constraints prob R (var_w prob) var_w_c
                       (var_s_lpm prob) var_eta (var_u prob) (var_z prob) var_v"
    by simp
  with assms(2) have "holds eps \<sigma>
      (Eq_c (EAdd (ESum (EVar (var_w prob))) (EVar var_w_c)) (EConst (Num 1)))"
    by (simp add: feasible_def build_constraints_def Let_def)
  then show ?thesis by (simp only: holds_budget)
qed

lemma load_problem_Inl:
  assumes "load_problem fs problem_file = Inl e"
  shows "e = FileNotFoundError \<or> e = KeyError"
  using assms by (auto simp: load_problem_def split: option.splits document.splits)

lemma solve_portfolio_lp_not_loaded:
  assumes "load_problem fs problem_file = Inl e"
  shows "solve_portfolio_lp run fs problem_file solution_file = (Inl e, fs)"
  using assms by (simp add: solve_portfolio_lp_def bind_err_def)

lemma solve_portfolio_lp_errors:
  assumes "fst (solve_portfolio_lp run fs problem_file solution_file) = Inl e"
  shows "e \<in> {FileNotFoundError, KeyError, ValueError, ZeroDivisionError}"
proof (cases "load_problem fs problem_file")
  case (Inl e')
  with assms load_problem_Inl [OF Inl] show ?thesis
    by (auto simp: solve_portfolio_lp_not_loaded)
next
  case (Inr prob)
  show ?thesis
  proof (cases "formulate prob")
    case (Inl e')
    with assms Inr formulate_Inl [OF Inl] show ?thesis
      by (auto simp: solve_portfolio_lp_loaded solve_core_failed)
  next
    case (Inr lp)
    with assms \<open>load_problem fs problem_file = Inr prob\<close> show ?thesis
      by (simp add: solve_portfolio_lp_loaded solve_core_formulated)
  qed
qed

subsection \<open>Turnover slack at a point optimal within tolerances\<close>

lemma tightened_sum:
  assumes d: "dims_ok prob" and s: "shaped prob \<sigma>"
  shows "sum_list (z_value (tightened prob \<sigma>)) = abs_turnover prob (w_value \<sigma>)"
proof -
  have l: "length (w_value \<sigma>) = nat (n_assets prob)"
    "length (prev_weights prob) = nat (n_assets prob)"
    using d s by (auto simp: dims_ok_def shaped_def)
  have "sum_list (map2 (\<lambda>x p. \<bar>x - p\<bar>) (w_value \<sigma>) (prev_weights prob)) =
        (\<Sum>i<nat (n_assets prob). map2 (\<lambda>x p. \<bar>x - p\<bar>) (w_value \<sigma>) (prev_weights prob) ! i)"
    by (rule sum_list_lessThan) (simp add: l)
  also have "\<dots> = (\<Sum>i<nat (n_assets prob). \<bar>w_value \<sigma> ! i - prev_weights prob ! i\<bar>)"
    by (rule sum.cong) (simp_all add: l)
  finally show ?thesis by (simp add: tightened_def abs_turnover_def)
qed

lemma tightened_feasible:
  assumes d: "dims_ok prob" and e: "0 \<le> eps" and f: "feasible eps (built_lp prob) \<sigma>"
  shows "feasible eps (built_lp prob) (tightened prob \<sigma>)"
proof -
  have s: "shaped prob \<sigma>" by (rule feasible_shaped [OF f])
  have l: "length (w_value \<sigma>) = nat (n_assets prob)"
    "length (prev_weights prob) = nat (n_assets prob)"
    using d s by (auto simp: dims_ok_def shaped_def)
  have s': "shaped prob (tightened prob \<sigma>)"
    using s l by (simp add: shaped_def tightened_def)
  have a: "spec_active prob (tightened prob \<sigma>) = spec_active prob \<sigma>"
    by (rule ext) (simp add: spec_active_def tightened_def)
  have b: "spec_beta prob (tightened prob \<sigma>) = spec_beta prob \<sigma>"
    by (simp add: spec_beta_def tightened_def)
  have h: "- eps \<le> \<bar>x - y\<bar> - (x - y)" "- eps \<le> \<bar>x - y\<bar> - (- (x - y))" "- eps \<le> \<bar>x - y\<bar>"
    for x y :: real
    using e by simp_all
  from f have c: "list_all (holds eps \<sigma>) (constraints (built_lp prob))"
    and m: "list_all (in_domain eps \<sigma>) (variables (built_lp prob))"
    by (simp_all add: feasible_def)
  from c have "list_all (holds eps (tightened prob \<sigma>)) (constraints (built_lp prob))"
    unfolding constraints_hold_iff [OF d s] constraints_hold_iff [OF d s'] a b
    using l h by (simp add: tightened_def)
  moreover from m have "list_all (in_domain eps (tightened prob \<sigma>)) (variables (built_lp prob))"
    unfolding domains_iff
    using l h s' by (simp add: tightened_def list_all_length)
  ultimately show ?thesis by (simp add: feasible_def)
qed

lemma feasible_turnover_lower:
  assumes d: "dims_ok prob" and f: "feasible eps (built_lp prob) \<sigma>"
  shows "abs_turnover prob (w_value \<sigma>) - real (nat (n_assets prob)) * eps
           \<le> sum_list (z_value \<sigma>)"
proof -
  have s: "shaped prob \<sigma>" by (rule feasible_shaped [OF f])
  from f have c: "list_all (holds eps \<sigma>) (constraints (built_lp prob))"
    by (simp add: feasible_def)
  have "(\<Sum>i<nat (n_assets prob). \<bar>w_value \<sigma> ! i - prev_weights prob ! i\<bar> - eps)
          \<le> (\<Sum>i<nat (n_assets prob). z_value \<sigma> ! i)"
  proof (rule sum_mono)
    fix i assume "i \<in> {..<nat (n_assets prob)}"
    then have i: "i < nat (n_assets prob)" by simp
    from c i have "- eps \<le> z_value \<sigma> ! i - (w_value \<sigma> ! i - prev_weights prob ! i)"
      and "- eps \<le> z_value \<sigma> ! i - (- (w_value \<sigma> ! i - prev_weights prob ! i))"
      unfolding constraints_hold_iff [OF d s] by blast+
    then show "\<bar>w_value \<sigma> ! i - prev_weights prob ! i\<bar> - eps \<le> z_value \<sigma> ! i" by linarith
  qed
  moreover have "(\<Sum>i<nat (n_assets prob). \<bar>w_value \<sigma> ! i - prev_weights prob ! i\<bar> - eps)
      = abs_turnover prob (w_value \<sigma>) - real (nat (n_assets prob)) * eps"
    by (simp add: sum_subtractf abs_turnover_def)
  moreover have "(\<Sum>i<nat (n_assets prob). z_value \<sigma> ! i) = sum_list (z_value \<sigma>)"
    using s by (simp add: sum_list_lessThan shaped_def)
  ultimately show ?thesis by simp
qed

lemma objective_tightened:
  "spec_objective prob (tightened prob \<sigma>) =
   spec_objective prob \<sigma>
     - kappa prob * (sum_list (z_value \<sigma>) - sum_list (z_value (tightened prob \<sigma>)))"
  by (simp add: spec_objective_def Let_def tightened_def algebra_simps)

lemma slack_bound:
  assumes d: "dims_ok prob" and k: "0 < kappa prob" and e: "0 \<le> eps"
    and opt: "optimal_within eps gap (built_lp prob) \<sigma>"
  shows "- (real (nat (n_assets prob)) * eps)
           \<le> sum_list (z_value \<sigma>) - abs_turnover prob (w_value \<sigma>)"
    and "sum_list (z_value \<sigma>) - abs_turnover prob (w_value \<sigma>) \<le> gap / kappa prob"
proof -
  from opt have f: "feasible eps (built_lp prob) \<sigma>" by (simp add: optimal_within_def)
  have s: "shaped prob \<sigma>" by (rule feasible_shaped [OF f])
  show "- (real (nat (n_assets prob)) * eps)
           \<le> sum_list (z_value \<sigma>) - abs_turnover prob (w_value \<sigma>)"
    using feasible_turnover_lower [OF d f] by simp
  have "feasible eps (built_lp prob) (tightened prob \<sigma>)"
    by (rule tightened_feasible [OF d e f])
  with opt have "spec_objective prob \<sigma> \<le> spec_objective prob (tightened prob \<sigma>) + gap"
    by (auto simp: optimal_within_def objective_at_built)
  then have "kappa prob * (sum_list (z_value \<sigma>) - abs_turnover prob (w_value \<sigma>)) \<le> gap"
    by (simp add: objective_tightened tightened_sum [OF d s])
  then show "sum_list (z_value \<sigma>) - abs_turnover prob (w_value \<sigma>) \<le> gap / kappa prob"
    using k by (simp add: pos_le_divide_eq mult.commute)
qed

lemma tight_pointwise:
  assumes d: "dims_ok prob" and f: "feasible 0 (built_lp prob) \<sigma>"
    and e: "sum_list (z_value \<sigma>) = abs_turnover prob (w_value \<sigma>)"
    and i: "i < nat (n_assets prob)"
  shows "z_value \<sigma> ! i = \<bar>w_value \<sigma> ! i - prev_weights prob ! i\<bar>"
proof -
  have s: "shaped prob \<sigma>" by (rule feasible_shaped [OF f])
  from f have c: "spec_constraints prob \<sigma>" by (simp add: feasible_iff_spec [OF d s])
  have ge: "0 \<le> z_value \<sigma> ! j - \<bar>w_value \<sigma> ! j - prev_weights prob ! j\<bar>"
    if "j < nat (n_assets prob)" for j
  proof -
    from c that have "z_value \<sigma> ! j \<ge> w_value \<sigma> ! j - prev_weights prob ! j"
      and "z_value \<sigma> ! j \<ge> - (w_value \<sigma> ! j - prev_weights prob ! j)"
      by (simp_all add: spec_constraints_def Let_def)
    then show ?thesis by linarith
  qed
  have "(\<Sum>j<nat (n_assets prob). z_value \<sigma> ! j - \<bar>w_value \<sigma> ! j - prev_weights prob ! j\<bar>)
        = sum_list (z_value \<sigma>) - abs_turnover prob (w_value \<sigma>)"
    using s by (simp add: sum_subtractf abs_turnover_def sum_list_lessThan shaped_def)
  with e have "(\<Sum>j<nat (n_assets prob).
      z_value \<sigma> ! j - \<bar>w_value \<sigma> ! j - prev_weights prob ! j\<bar>) = 0"
    by simp
  then have "\<forall>j\<in>{..<nat (n_assets prob)}.
      z_value \<sigma> ! j - \<bar>w_value \<sigma> ! j - prev_weights prob ! j\<bar> = 0"
    using ge by (subst (asm) sum_nonneg_eq_0_iff) auto
  with i show ?thesis by simp
qed

subsection \<open>Facts about the concrete problems\<close>

lemma example_load: "load_problem (example_files prob) ''problem.json'' = Inr prob"
  by (simp add: load_problem_def example_files_def)

lemma example_dims: "dims_ok example_problem"
  by (simp add: dims_ok_def example_problem_def)

lemma example_shaped: "shaped example_problem example_assignment"
  by (simp add: shaped_def example_problem_def example_assignment_def)

lemma example_formulate: "formulate example_problem = Inr (built_lp example_problem)"
  by (rule formulate_ok [OF example_dims]) (simp add: example_problem_def)

lemma single_dims: "dims_ok (single_asset_problem k)"
  by (simp add: dims_ok_def single_asset_problem_def)

lemma single_formulate:
  "formulate (single_asset_problem k) = Inr (built_lp (single_asset_problem k))"
  by (rule formulate_ok [OF single_dims]) (simp add: single_asset_problem_def)

lemma example_feasible: "0 \<le> eps \<Longrightarrow> feasible eps (built_lp example_problem) example_assignment"
  unfolding feasible_def constraints_hold_iff [OF example_dims example_shaped] domains_iff
  by (simp add: example_shaped)
    (simp add: example_problem_def example_assignment_def spec_active_def spec_beta_def
      eval_nat_numeral All_less_Suc lessThan_Suc)

lemma single_shaped: "shaped (single_asset_problem k) (single_asset_assignment zv)"
  by (simp add: shaped_def single_asset_problem_def single_asset_assignment_def)

lemma single_feasible:
  assumes "0 \<le> zv"
  shows "feasible 0 (built_lp (single_asset_problem k)) (single_asset_assignment zv)"
  unfolding feasible_iff_spec [OF single_dims single_shaped]
  using assms
  by (simp add: spec_constraints_def spec_domains_def spec_active_def spec_beta_def Let_def
        single_asset_problem_def single_asset_assignment_def)

lemma single_objective_nonneg:
  assumes "0 \<le> k" and "feasible 0 (built_lp (single_asset_problem k)) \<sigma>"
  shows "0 \<le> spec_objective (single_asset_problem k) \<sigma>"
proof -
  from assms(2) have "list_all (\<lambda>y. 0 \<le> y) (s_lpm_value \<sigma>)"
    and "list_all (\<lambda>y. 0 \<le> y) (z_value \<sigma>)"
    by (simp_all add: feasible_def domains_iff)
  then have "0 \<le> sum_list (s_lpm_value \<sigma>)" and "0 \<le> sum_list (z_value \<sigma>)"
    by (simp_all add: sum_list_nonneg list_all_iff)
  with assms(1) show ?thesis
    by (simp add: spec_objective_def single_asset_problem_def)
qed

lemma single_optimal:
  assumes "0 \<le> k" and "0 \<le> zv" and "k * zv = 0"
  shows "optimal_within 0 0 (built_lp (single_asset_problem k)) (single_asset_assignment zv)"
proof -
  have "spec_objective (single_asset_problem k) (single_asset_assignment zv) = 0"
    using assms(3)
    by (simp add: spec_objective_def single_asset_problem_def single_asset_assignment_def)
  with single_objective_nonneg [OF assms(1)] single_feasible [OF assms(2)]
  show ?thesis
    by (simp add: optimal_within_def objective_at_built)
qed

lemma short_benchmark_formulate:
  "formulate (example_problem\<lparr> benchmark_scenarios := [0, 0] \<rparr>) = Inl ValueError"
  by (simp add: formulate_def Let_def bind_err_def np_array2_def cp_Variable_def
        build_constraints_def active_returns_def example_problem_def)

lemma mover_dims: "dims_ok mover_problem"
  by (simp add: dims_ok_def mover_problem_def)

lemma mover_shaped: "shaped mover_problem mover_assignment"
  by (simp add: shaped_def mover_problem_def mover_assignment_def)

lemma mover_formulate: "formulate mover_problem = Inr (built_lp mover_problem)"
  by (rule formulate_ok [OF mover_dims]) (simp add: mover_problem_def)

lemma mover_feasible: "feasible (1 / 1000) (built_lp mover_problem) mover_assignment"
  unfolding feasible_def constraints_hold_iff [OF mover_dims mover_shaped] domains_iff
  by (simp add: mover_shaped)
    (simp add: mover_problem_def mover_assignment_def spec_active_def spec_beta_def)

lemma sum_list_single: "length xs = Suc 0 \<Longrightarrow> sum_list xs = xs ! 0"
  by (cases xs) auto

lemma mover_lower_bound:
  assumes f: "feasible eps (built_lp mover_problem) \<sigma>"
  shows "1 / 2 - 5 * eps / 2 \<le> spec_objective mover_problem \<sigma>"
proof -
  have s: "shaped mover_problem \<sigma>" by (rule feasible_shaped [OF f])
  then have l: "length (w_value \<sigma>) = Suc 0" "length (s_lpm_value \<sigma>) = Suc 0"
    "length (z_value \<sigma>) = Suc 0"
    by (simp_all add: shaped_def mover_problem_def)
  from f have c: "list_all (holds eps \<sigma>) (constraints (built_lp mover_problem))"
    and m: "list_all (in_domain eps \<sigma>) (variables (built_lp mover_problem))"
    by (simp_all add: feasible_def)
  from m l have wc: "- eps \<le> w_c_value \<sigma>"
    by (simp add: domains_iff)
  from c l have b: "\<bar>w_value \<sigma> ! 0 + w_c_value \<sigma> - 1\<bar> \<le> eps"
    and sl: "- eps \<le> s_lpm_value \<sigma> ! 0 - (0 - (w_value \<sigma> ! 0 - 1))"
    and z: "- eps \<le> z_value \<sigma> ! 0 - (w_value \<sigma> ! 0 - 0)"
    unfolding constraints_hold_iff [OF mover_dims s]
    by (simp_all add: mover_problem_def spec_active_def sum_list_single)
  have "spec_objective mover_problem \<sigma> = s_lpm_value \<sigma> ! 0 + z_value \<sigma> ! 0 / 2"
    using l by (simp add: spec_objective_def mover_problem_def sum_list_single)
  with wc b sl z show ?thesis by linarith
qed

lemma mover_optimal:
  "optimal_within (1 / 1000) (3 / 1000) (built_lp mover_problem) mover_assignment"
proof -
  have "spec_objective mover_problem mover_assignment = 1001 / 2000"
    by (simp add: spec_objective_def mover_problem_def mover_assignment_def)
  moreover have "1 / 2 - 5 * (1 / 1000) / 2 \<le> spec_objective mover_problem \<sigma>'"
    if "feasible (1 / 1000) (built_lp mover_problem) \<sigma>'" for \<sigma>'
    by (rule mover_lower_bound [OF that])
  ultimately show ?thesis
    using mover_feasible
    by (auto simp: optimal_within_def objective_at_built dest!: mover_lower_bound)
qed

lemma short_benchmark_alpha_one_formulate:
  "formulate (example_problem\<lparr> benchmark_scenarios := [0, 0], cvar_alpha := 1 \<rparr>)
     = Inl ValueError"
  by (simp add: formulate_def Let_def bind_err_def np_array2_def cp_Variable_def
        build_constraints_def active_returns_def example_problem_def)

lemma one_element_prev_formulate:
  "formulate (example_problem\<lparr> prev_weights := [1/2] \<rparr>)
     = Inr (built_lp (example_problem\<lparr> prev_weights := [1/2] \<rparr>))"
  by (simp add: formulate_def Let_def bind_err_def np_array2_def cp_Variable_def py_div_def
        build_constraints_def active_returns_def example_problem_def built_lp_def var_defs)

section \<open>The claims\<close>

text \<open>
  C1.  When formulation has succeeded and the solve attempt ends with a status other than
  \<open>optimal\<close> and \<open>optimal_inaccurate\<close>, or with an exception out of the cascade, the call
  returns (and writes) the fallback solution: the asset weights are the previous weights
  as given, the cash weight is the previous cash, the objective value is plus infinity, the
  four component metrics are 0, and the status is the observed status, or \<open>error\<close> after an
  exception.
\<close>

theorem fallback_solution:
  assumes "load_problem fs problem_file = Inr prob"
    and "formulate prob = Inr lp"
    and "snd (solve_cascade run lp) = Raised \<or>
         (\<exists>r. snd (solve_cascade run lp) = Returned r \<and>
              status r \<notin> {''optimal'', ''optimal_inaccurate''})"
  shows "solve_portfolio_lp run fs problem_file solution_file =
           (let sol = \<lparr> asset_weights = prev_weights prob,
                         cash_weight = prev_cash prob,
                         objective_value = PosInf,
                         lpm1_value = 0, cvar_value = 0, turnover = 0, beta_penalty = 0,
                         solver_status =
                           (case snd (solve_cascade run lp) of
                              Raised \<Rightarrow> ''error'' | Returned r \<Rightarrow> status r) \<rparr>
            in (Inr sol, fs(solution_file \<mapsto> Solution_doc sol)))"
proof -
  have core: "solve_core run prob = Inr (solve_phase run prob lp)"
    by (rule solve_core_formulated [OF assms(2)])
  from assms(3) have "solve_phase run prob lp =
      fallback prob (case snd (solve_cascade run lp) of Raised \<Rightarrow> ''error'' | Returned r \<Rightarrow> status r)"
  proof
    assume "snd (solve_cascade run lp) = Raised"
    then show ?thesis by (simp add: solve_phase_raised)
  next
    assume "\<exists>r. snd (solve_cascade run lp) = Returned r \<and>
              status r \<notin> {''optimal'', ''optimal_inaccurate''}"
    then obtain r where "snd (solve_cascade run lp) = Returned r"
      and "status r \<noteq> ''optimal''" and "status r \<noteq> ''optimal_inaccurate''"
      by auto
    then show ?thesis by (simp add: solve_phase_rejected)
  qed
  then show ?thesis
    by (simp add: solve_portfolio_lp_loaded [OF assms(1)] core
          fallback_def Let_def)
qed

theorem fallback_solution_witness:
  "solve_portfolio_lp run_all_raise (example_files example_problem) ''problem.json''
      ''solution.json''
     = (Inr (fallback example_problem ''error''),
        (example_files example_problem)
          (''solution.json'' \<mapsto> Solution_doc (fallback example_problem ''error''))) \<and>
   solve_portfolio_lp (run_report (example_report ''infeasible''))
      (example_files example_problem) ''problem.json'' ''solution.json''
     = (Inr (fallback example_problem ''infeasible''),
        (example_files example_problem)
          (''solution.json'' \<mapsto> Solution_doc (fallback example_problem ''infeasible'')))"
proof -
  have a: "snd (solve_cascade run_all_raise (built_lp example_problem)) = Raised"
    by (simp add: solve_cascade_unfold run_all_raise_def)
  have b: "snd (solve_cascade (run_report (example_report ''infeasible''))
              (built_lp example_problem)) = Returned (example_report ''infeasible'')"
    by (simp add: solve_cascade_unfold run_report_def)
  have c: "status (example_report ''infeasible'') \<notin> {''optimal'', ''optimal_inaccurate''}"
    by (simp add: example_report_def)
  have "solve_portfolio_lp run_all_raise (example_files example_problem) ''problem.json''
      ''solution.json''
     = (Inr (fallback example_problem ''error''),
        (example_files example_problem)
          (''solution.json'' \<mapsto> Solution_doc (fallback example_problem ''error'')))"
    using fallback_solution [OF example_load example_formulate, of run_all_raise
      "''solution.json''"] a
    by (simp add: fallback_def Let_def)
  moreover
  have "solve_portfolio_lp (run_report (example_report ''infeasible''))
      (example_files example_problem) ''problem.json'' ''solution.json''
     = (Inr (fallback example_problem ''infeasible''),
        (example_files example_problem)
          (''solution.json'' \<mapsto> Solution_doc (fallback example_problem ''infeasible'')))"
    using fallback_solution [OF example_load example_formulate,
      of "run_report (example_report ''infeasible'')" "''solution.json''"] b c
    by (simp add: fallback_def Let_def example_report_def)
  ultimately show ?thesis by simp
qed

text \<open>
  C2.  For every problem that satisfies the dimension invariant, with \<open>T > 0\<close> and
  \<open>cvar_alpha\<close> strictly between 0 and 1, the formulation succeeds, the program is a
  minimization, and at every assignment its objective has the value
  \<open>lambda_lpm1 * (1/T) * sum(s_lpm) + lambda_cvar * (eta + (1/((1-alpha)*T)) * sum(u))
  + kappa * sum(z) + lambda_beta * stress_weight * v\<close>.
\<close>

theorem objective_formula:
  assumes "dims_ok prob" and "0 < n_scenarios prob"
    and "0 < cvar_alpha prob" and "cvar_alpha prob < 1"
  shows "\<exists>lp e. formulate prob = Inr lp \<and> objective lp = Minimize e \<and>
           (\<forall>\<sigma>. eval \<sigma> e = Some (Num (spec_objective prob \<sigma>)))"
proof -
  from assms have f: "formulate prob = Inr (built_lp prob)"
    by (intro formulate_ok) auto
  obtain e where e: "objective (built_lp prob) = Minimize e"
    by (simp add: built_lp_def build_objective_def Let_def)
  have "eval \<sigma> e = Some (Num (spec_objective prob \<sigma>))" for \<sigma>
  proof -
    have "objective_at (built_lp prob) \<sigma> = Some (spec_objective prob \<sigma>)"
      by (rule objective_at_built)
    with e show ?thesis
      by (auto simp: objective_at_def split: option.splits ndarray.splits)
  qed
  with f e show ?thesis by blast
qed

theorem objective_formula_witness:
  "dims_ok example_problem \<and> 0 < n_scenarios example_problem \<and>
   0 < cvar_alpha example_problem \<and> cvar_alpha example_problem < 1 \<and>
   (\<exists>lp e. formulate example_problem = Inr lp \<and> objective lp = Minimize e \<and>
      eval example_assignment e = Some (Num (187 / 1200)))"
proof -
  have h: "0 < n_scenarios example_problem" "0 < cvar_alpha example_problem"
    "cvar_alpha example_problem < 1"
    by (simp_all add: example_problem_def)
  have v: "spec_objective example_problem example_assignment = 187 / 1200"
    by (simp add: spec_objective_def example_problem_def example_assignment_def)
  from objective_formula [OF example_dims h] obtain lp e
    where "formulate example_problem = Inr lp" and "objective lp = Minimize e"
      and "\<forall>\<sigma>. eval \<sigma> e = Some (Num (spec_objective example_problem \<sigma>))"
    by blast
  then have "formulate example_problem = Inr lp \<and> objective lp = Minimize e \<and>
      eval example_assignment e = Some (Num (187 / 1200))"
    using v by simp
  then show ?thesis using example_dims h by blast
qed

text \<open>
  C3.  For every problem that satisfies the dimension invariant (and is formulated, that is
  \<open>cvar_alpha \<noteq> 1\<close>), the program has seven constraints, and an assignment of the declared
  dimensions satisfies all of them exactly when it satisfies the specification's list: the
  budget equation, the two epigraph inequalities per scenario on the active return
  \<open>a = R@w + r_c*w_c - b\<close>, the two turnover inequalities per asset and the two
  beta-deviation inequalities.  The variables are \<open>w, w_c, s_lpm, eta, u, z, v\<close>, all
  declared nonnegative but \<open>eta\<close>, and the domains hold exactly when \<open>w, w_c, s_lpm, u, z, v\<close>
  are nonnegative.  So the feasible points of the program are exactly the assignments of
  the declared dimensions that satisfy the listed constraints and the sign conditions.
\<close>

theorem constraint_set:
  assumes "dims_ok prob" and "cvar_alpha prob \<noteq> 1"
  shows "\<exists>lp. formulate prob = Inr lp \<and>
           length (constraints lp) = 7 \<and>
           map var_id (variables lp) = [Id_w, Id_w_c, Id_s_lpm, Id_eta, Id_u, Id_z, Id_v] \<and>
           map var_nonneg (variables lp) = [True, True, True, False, True, True, True] \<and>
           (\<forall>\<sigma>. shaped prob \<sigma> \<longrightarrow>
                list_all (holds 0 \<sigma>) (constraints lp) = spec_constraints prob \<sigma> \<and>
                list_all (in_domain 0 \<sigma>) (variables lp) = spec_domains prob \<sigma>) \<and>
           (\<forall>\<sigma>. feasible 0 lp \<sigma>
                = (shaped prob \<sigma> \<and> spec_constraints prob \<sigma> \<and> spec_domains prob \<sigma>))"
proof -
  have f: "formulate prob = Inr (built_lp prob)"
    by (rule formulate_ok [OF assms])
  have n: "length (constraints (built_lp prob)) = 7"
    by (simp add: built_lp_def build_constraints_def Let_def)
  have v: "map var_id (variables (built_lp prob))
             = [Id_w, Id_w_c, Id_s_lpm, Id_eta, Id_u, Id_z, Id_v]"
    "map var_nonneg (variables (built_lp prob)) = [True, True, True, False, True, True, True]"
    by (simp_all add: built_lp_def var_defs)
  have c: "list_all (holds 0 \<sigma>) (constraints (built_lp prob)) = spec_constraints prob \<sigma> \<and>
           list_all (in_domain 0 \<sigma>) (variables (built_lp prob)) = spec_domains prob \<sigma>"
    if "shaped prob \<sigma>" for \<sigma>
    by (simp only: constraints_iff_spec [OF assms(1) that] domains_iff_spec [OF that] simp_thms)
  have a: "feasible 0 (built_lp prob) \<sigma>
      = (shaped prob \<sigma> \<and> spec_constraints prob \<sigma> \<and> spec_domains prob \<sigma>)" for \<sigma>
  proof (cases "shaped prob \<sigma>")
    case True
    then show ?thesis by (simp add: feasible_iff_spec [OF assms(1)])
  next
    case False
    then have "\<not> feasible 0 (built_lp prob) \<sigma>" using feasible_shaped by blast
    with False show ?thesis by simp
  qed
  show ?thesis
  proof (intro exI [of _ "built_lp prob"] conjI allI impI)
    show "formulate prob = Inr (built_lp prob)" by (rule f)
    show "length (constraints (built_lp prob)) = 7" by (rule n)
    show "map var_id (variables (built_lp prob))
             = [Id_w, Id_w_c, Id_s_lpm, Id_eta, Id_u, Id_z, Id_v]" by (rule v(1))
    show "map var_nonneg (variables (built_lp prob))
             = [True, True, True, False, True, True, True]" by (rule v(2))
  next
    fix \<sigma> assume s: "shaped prob \<sigma>"
    from c [OF s]
    show "list_all (holds 0 \<sigma>) (constraints (built_lp prob)) = spec_constraints prob \<sigma>"
      and "list_all (in_domain 0 \<sigma>) (variables (built_lp prob)) = spec_domains prob \<sigma>"
      by simp_all
  next
    fix \<sigma>
    show "feasible 0 (built_lp prob) \<sigma>
      = (shaped prob \<sigma> \<and> spec_constraints prob \<sigma> \<and> spec_domains prob \<sigma>)"
      by (rule a)
  qed
qed

theorem constraint_set_witness:
  "dims_ok example_problem \<and> cvar_alpha example_problem \<noteq> 1 \<and>
   shaped example_problem example_assignment \<and>
   feasible 0 (built_lp example_problem) example_assignment \<and>
   spec_constraints example_problem example_assignment \<and>
   spec_domains example_problem example_assignment"
proof -
  have a: "cvar_alpha example_problem \<noteq> 1" by (simp add: example_problem_def)
  have feas: "feasible 0 (built_lp example_problem) example_assignment"
    by (rule example_feasible) simp
  from constraint_set [OF example_dims a] obtain lp
    where "formulate example_problem = Inr lp"
      and "\<forall>\<sigma>. feasible 0 lp \<sigma> = (shaped example_problem \<sigma> \<and>
             spec_constraints example_problem \<sigma> \<and> spec_domains example_problem \<sigma>)"
    by blast
  then have "feasible 0 (built_lp example_problem) example_assignment
      = (shaped example_problem example_assignment \<and>
         spec_constraints example_problem example_assignment \<and>
         spec_domains example_problem example_assignment)"
    by (simp add: example_formulate)
  with feas example_dims a show ?thesis by simp
qed

text \<open>
  C4, as amended.  The program has no validation step and never raises \<open>ValidationError\<close>.
  A problem that satisfies the dimension invariant and has \<open>cvar_alpha \<noteq> 1\<close> is formulated
  from its values as given, whatever the signs of \<open>lambda_lpm1\<close>, \<open>lambda_cvar\<close>,
  \<open>lambda_beta\<close>, \<open>kappa\<close> and \<open>stress_weight\<close> and whether or not \<open>cvar_alpha\<close> lies
  between 0 and 1, and the call returns and writes a solution.
\<close>

theorem no_validation:
  "fst (solve_portfolio_lp run fs problem_file solution_file) \<noteq> Inl ValidationError \<and>
   (load_problem fs problem_file = Inr prob \<and> dims_ok prob \<and> cvar_alpha prob \<noteq> 1 \<longrightarrow>
      formulate prob = Inr (built_lp prob) \<and>
      (\<exists>sol. solve_portfolio_lp run fs problem_file solution_file
                = (Inr sol, fs(solution_file \<mapsto> Solution_doc sol))))"
proof (intro conjI impI)
  show "fst (solve_portfolio_lp run fs problem_file solution_file) \<noteq> Inl ValidationError"
    using solve_portfolio_lp_errors [of run fs problem_file solution_file ValidationError]
    by auto
next
  assume a: "load_problem fs problem_file = Inr prob \<and> dims_ok prob \<and> cvar_alpha prob \<noteq> 1"
  then show "formulate prob = Inr (built_lp prob)"
    by (simp add: formulate_ok)
  with a show "\<exists>sol. solve_portfolio_lp run fs problem_file solution_file
                = (Inr sol, fs(solution_file \<mapsto> Solution_doc sol))"
    by (simp add: solve_portfolio_lp_loaded solve_core_formulated)
qed

theorem no_validation_witness:
  "dims_ok (example_problem\<lparr> lambda_cvar := - 1, cvar_alpha := 3 / 2 \<rparr>) \<and>
   formulate (example_problem\<lparr> lambda_cvar := - 1, cvar_alpha := 3 / 2 \<rparr>)
     = Inr (built_lp (example_problem\<lparr> lambda_cvar := - 1, cvar_alpha := 3 / 2 \<rparr>)) \<and>
   (\<exists>sol. solve_portfolio_lp (run_report (example_report ''unbounded''))
       (example_files (example_problem\<lparr> lambda_cvar := - 1, cvar_alpha := 3 / 2 \<rparr>))
       ''problem.json'' ''solution.json''
      = (Inr sol, (example_files (example_problem\<lparr> lambda_cvar := - 1, cvar_alpha := 3 / 2 \<rparr>))
                    (''solution.json'' \<mapsto> Solution_doc sol)))"
proof -
  let ?p = "example_problem\<lparr> lambda_cvar := - 1, cvar_alpha := 3 / 2 \<rparr>"
  have d: "dims_ok ?p" by (simp add: dims_ok_def example_problem_def)
  have a: "cvar_alpha ?p \<noteq> 1" by simp
  from no_validation [of "run_report (example_report ''unbounded'')" "example_files ?p"
      "''problem.json''" "''solution.json''" ?p] example_load [of ?p] d a
  show ?thesis by simp
qed

text \<open>
  C4 as stated fails on a negative \<open>kappa\<close>: the input is accepted, the back end reports
  \<open>unbounded\<close>, and the call returns and writes the fallback solution.
\<close>

theorem negative_kappa_counterexample:
  "solve_portfolio_lp (run_report (example_report ''unbounded''))
       (example_files (example_problem\<lparr> kappa := - 1 \<rparr>)) ''problem.json'' ''solution.json''
     = (Inr (fallback (example_problem\<lparr> kappa := - 1 \<rparr>) ''unbounded''),
        (example_files (example_problem\<lparr> kappa := - 1 \<rparr>))
          (''solution.json'' \<mapsto>
             Solution_doc (fallback (example_problem\<lparr> kappa := - 1 \<rparr>) ''unbounded'')))"
proof -
  let ?p = "example_problem\<lparr> kappa := - 1 \<rparr>"
  let ?r = "example_report ''unbounded''"
  have d: "dims_ok ?p" by (simp add: dims_ok_def example_problem_def)
  have fm: "formulate ?p = Inr (built_lp ?p)"
    by (rule formulate_ok [OF d]) (simp add: example_problem_def)
  have c: "snd (solve_cascade (run_report ?r) (built_lp ?p)) = Returned ?r"
    by (simp add: solve_cascade_unfold run_report_def)
  have "solve_phase (run_report ?r) ?p (built_lp ?p) = fallback ?p (status ?r)"
    by (rule solve_phase_rejected [OF c]) (simp_all add: example_report_def)
  then show ?thesis
    by (simp add: solve_portfolio_lp_loaded [OF example_load] solve_core_formulated [OF fm]
          example_report_def)
qed

text \<open>
  C5, as amended.  Only the solve phase is guarded.  When the formulation succeeds the call
  always returns and writes a solution, and it is the fallback with status \<open>error\<close> when
  the cascade ended with an exception.  An exception raised by the formulation is
  propagated to the caller: no solution is returned and no file is written.
\<close>

theorem exceptions_absorbed_in_solve_only:
  assumes "load_problem fs problem_file = Inr prob"
  shows "(\<forall>lp. formulate prob = Inr lp \<longrightarrow>
            (\<exists>sol. solve_portfolio_lp run fs problem_file solution_file
                     = (Inr sol, fs(solution_file \<mapsto> Solution_doc sol)) \<and>
                   (snd (solve_cascade run lp) = Raised \<longrightarrow> sol = fallback prob ''error''))) \<and>
         (\<forall>e. formulate prob = Inl e \<longrightarrow>
            solve_portfolio_lp run fs problem_file solution_file = (Inl e, fs))"
proof (intro conjI allI impI)
  fix lp assume f: "formulate prob = Inr lp"
  have "solve_portfolio_lp run fs problem_file solution_file
      = (Inr (solve_phase run prob lp),
         fs(solution_file \<mapsto> Solution_doc (solve_phase run prob lp)))"
    by (simp add: solve_portfolio_lp_loaded [OF assms] solve_core_formulated [OF f])
  moreover have "snd (solve_cascade run lp) = Raised \<longrightarrow>
      solve_phase run prob lp = fallback prob ''error''"
    by (simp add: solve_phase_raised)
  ultimately show "\<exists>sol. solve_portfolio_lp run fs problem_file solution_file
                     = (Inr sol, fs(solution_file \<mapsto> Solution_doc sol)) \<and>
                   (snd (solve_cascade run lp) = Raised \<longrightarrow> sol = fallback prob ''error'')"
    by blast
next
  fix e assume "formulate prob = Inl e"
  then show "solve_portfolio_lp run fs problem_file solution_file = (Inl e, fs)"
    by (simp add: solve_portfolio_lp_loaded [OF assms] solve_core_failed)
qed

theorem exceptions_absorbed_in_solve_only_witness:
  "(\<exists>sol. solve_portfolio_lp run_all_raise (example_files example_problem)
       ''problem.json'' ''solution.json''
      = (Inr sol, (example_files example_problem)(''solution.json'' \<mapsto> Solution_doc sol)) \<and>
     sol = fallback example_problem ''error'') \<and>
   (\<exists>sol. solve_portfolio_lp run_all_raise
       (example_files (example_problem\<lparr> prev_weights := [1/2] \<rparr>))
       ''problem.json'' ''solution.json''
      = (Inr sol, (example_files (example_problem\<lparr> prev_weights := [1/2] \<rparr>))
                    (''solution.json'' \<mapsto> Solution_doc sol)) \<and>
     sol = fallback (example_problem\<lparr> prev_weights := [1/2] \<rparr>) ''error'') \<and>
   solve_portfolio_lp run_all_raise
       (example_files (example_problem\<lparr> benchmark_scenarios := [0, 0] \<rparr>))
       ''problem.json'' ''solution.json''
     = (Inl ValueError, example_files (example_problem\<lparr> benchmark_scenarios := [0, 0] \<rparr>))"
proof -
  have a: "snd (solve_cascade run_all_raise (built_lp example_problem)) = Raised"
    by (simp add: solve_cascade_unfold run_all_raise_def)
  from exceptions_absorbed_in_solve_only [OF example_load, of example_problem run_all_raise
      "''solution.json''"] example_formulate a
  have one: "\<exists>sol. solve_portfolio_lp run_all_raise (example_files example_problem)
       ''problem.json'' ''solution.json''
      = (Inr sol, (example_files example_problem)(''solution.json'' \<mapsto> Solution_doc sol)) \<and>
     sol = fallback example_problem ''error''"
    by auto
  from exceptions_absorbed_in_solve_only [OF example_load,
      of "example_problem\<lparr> benchmark_scenarios := [0, 0] \<rparr>" run_all_raise "''solution.json''"]
    short_benchmark_formulate
  have two: "solve_portfolio_lp run_all_raise
       (example_files (example_problem\<lparr> benchmark_scenarios := [0, 0] \<rparr>))
       ''problem.json'' ''solution.json''
     = (Inl ValueError, example_files (example_problem\<lparr> benchmark_scenarios := [0, 0] \<rparr>))"
    by blast
  have b: "snd (solve_cascade run_all_raise
      (built_lp (example_problem\<lparr> prev_weights := [1/2] \<rparr>))) = Raised"
    by (simp add: solve_cascade_unfold run_all_raise_def)
  from exceptions_absorbed_in_solve_only [OF example_load,
      of "example_problem\<lparr> prev_weights := [1/2] \<rparr>" run_all_raise "''solution.json''"]
    one_element_prev_formulate b
  have three: "\<exists>sol. solve_portfolio_lp run_all_raise
       (example_files (example_problem\<lparr> prev_weights := [1/2] \<rparr>))
       ''problem.json'' ''solution.json''
      = (Inr sol, (example_files (example_problem\<lparr> prev_weights := [1/2] \<rparr>))
                    (''solution.json'' \<mapsto> Solution_doc sol)) \<and>
     sol = fallback (example_problem\<lparr> prev_weights := [1/2] \<rparr>) ''error''"
    by auto
  from one two three show ?thesis by blast
qed

text \<open>
  C5 as stated fails for \<open>cvar_alpha = 1\<close>: the division in the CVaR term raises
  \<open>ZeroDivisionError\<close> before the guarded block, and the call propagates it.
\<close>

theorem formulation_error_counterexample:
  "solve_portfolio_lp run_all_raise (example_files (example_problem\<lparr> cvar_alpha := 1 \<rparr>))
       ''problem.json'' ''solution.json''
     = (Inl ZeroDivisionError, example_files (example_problem\<lparr> cvar_alpha := 1 \<rparr>))"
proof -
  let ?p = "example_problem\<lparr> cvar_alpha := 1 \<rparr>"
  have d: "dims_ok ?p" by (simp add: dims_ok_def example_problem_def)
  have "formulate ?p = Inl ZeroDivisionError"
    by (simp add: formulate_checked [OF d])
  then show ?thesis
    by (simp add: solve_portfolio_lp_loaded [OF example_load] solve_core_failed)
qed

text \<open>
  C6.  After a successful formulation the call returns a solution.  When the back end's
  status is of the optimal class and its point satisfies the program within the tolerance
  \<open>eps\<close> (what the back end promises for such a status), the solution is a successful one
  and \<open>sum(asset_weights) + cash_weight\<close> is within \<open>eps\<close> of 1.  When the cascade raised
  or the status is of another class, the solution is a fallback one, and
  \<open>sum(asset_weights) + cash_weight\<close> is within \<open>eps\<close> of 1 if and only if
  \<open>sum(prev_weights) + prev_cash\<close> is.
\<close>

theorem budget_invariant:
  assumes "load_problem fs problem_file = Inr prob"
    and "formulate prob = Inr lp"
  shows "\<exists>sol. solve_portfolio_lp run fs problem_file solution_file
                 = (Inr sol, fs(solution_file \<mapsto> Solution_doc sol)) \<and>
           (\<forall>r. snd (solve_cascade run lp) = Returned r \<and>
                status r \<in> {''optimal'', ''optimal_inaccurate''} \<and>
                feasible eps lp (primal r)
                \<longrightarrow> solver_status sol \<in> {''optimal'', ''optimal_inaccurate''} \<and>
                    \<bar>sum_list (asset_weights sol) + cash_weight sol - 1\<bar> \<le> eps) \<and>
           (snd (solve_cascade run lp) = Raised \<or>
            (\<exists>r. snd (solve_cascade run lp) = Returned r \<and>
                 status r \<notin> {''optimal'', ''optimal_inaccurate''})
            \<longrightarrow> solver_status sol \<notin> {''optimal'', ''optimal_inaccurate''} \<and>
                (\<bar>sum_list (asset_weights sol) + cash_weight sol - 1\<bar> \<le> eps)
                  = (\<bar>sum_list (prev_weights prob) + prev_cash prob - 1\<bar> \<le> eps))"
proof -
  let ?sol = "solve_phase run prob lp"
  have core: "solve_core run prob = Inr ?sol"
    by (rule solve_core_formulated [OF assms(2)])
  have ret: "solve_portfolio_lp run fs problem_file solution_file
      = (Inr ?sol, fs(solution_file \<mapsto> Solution_doc ?sol))"
    by (simp add: solve_portfolio_lp_loaded [OF assms(1)] core)
  have ok: "solver_status ?sol \<in> {''optimal'', ''optimal_inaccurate''} \<and>
            \<bar>sum_list (asset_weights ?sol) + cash_weight ?sol - 1\<bar> \<le> eps"
    if "snd (solve_cascade run lp) = Returned r \<and>
        status r \<in> {''optimal'', ''optimal_inaccurate''} \<and> feasible eps lp (primal r)" for r
  proof -
    from that have c: "snd (solve_cascade run lp) = Returned r"
      and st: "status r = ''optimal'' \<or> status r = ''optimal_inaccurate''"
      and fe: "feasible eps lp (primal r)"
      by simp_all
    note acc = solve_phase_accepted [OF assms(2) c st]
    have "solver_status ?sol = status r" by (simp only: acc solution.simps)
    moreover have "sum_list (asset_weights ?sol) + cash_weight ?sol
        = sum_list (w_value (primal r)) + w_c_value (primal r)"
      by (simp only: acc solution.simps)
    ultimately show ?thesis
      using budget_of_feasible [OF assms(2) fe] st by auto
  qed
  have fb: "solver_status ?sol \<notin> {''optimal'', ''optimal_inaccurate''} \<and>
            (\<bar>sum_list (asset_weights ?sol) + cash_weight ?sol - 1\<bar> \<le> eps)
            = (\<bar>sum_list (prev_weights prob) + prev_cash prob - 1\<bar> \<le> eps)"
    if "snd (solve_cascade run lp) = Raised \<or>
            (\<exists>r. snd (solve_cascade run lp) = Returned r \<and>
                 status r \<notin> {''optimal'', ''optimal_inaccurate''})"
    using that
  proof
    assume "snd (solve_cascade run lp) = Raised"
    then have "?sol = fallback prob ''error''" by (rule solve_phase_raised)
    then show ?thesis by (simp add: fallback_def)
  next
    assume "\<exists>r. snd (solve_cascade run lp) = Returned r \<and>
                 status r \<notin> {''optimal'', ''optimal_inaccurate''}"
    then obtain r where c: "snd (solve_cascade run lp) = Returned r"
      and n: "status r \<noteq> ''optimal''" "status r \<noteq> ''optimal_inaccurate''"
      by auto
    have "?sol = fallback prob (status r)" by (rule solve_phase_rejected [OF c n])
    with n show ?thesis by (simp add: fallback_def)
  qed
  show ?thesis
  proof (intro exI [of _ ?sol] conjI allI impI)
    show "solve_portfolio_lp run fs problem_file solution_file
      = (Inr ?sol, fs(solution_file \<mapsto> Solution_doc ?sol))"
      by (rule ret)
  next
    fix r
    assume "snd (solve_cascade run lp) = Returned r \<and>
        status r \<in> {''optimal'', ''optimal_inaccurate''} \<and> feasible eps lp (primal r)"
    from ok [OF this]
    show "solver_status ?sol \<in> {''optimal'', ''optimal_inaccurate''}"
      and "\<bar>sum_list (asset_weights ?sol) + cash_weight ?sol - 1\<bar> \<le> eps"
      by blast+
  next
    assume a: "snd (solve_cascade run lp) = Raised \<or>
            (\<exists>r. snd (solve_cascade run lp) = Returned r \<and>
                 status r \<notin> {''optimal'', ''optimal_inaccurate''})"
    from fb [OF a]
    show "solver_status ?sol \<notin> {''optimal'', ''optimal_inaccurate''}"
      and "(\<bar>sum_list (asset_weights ?sol) + cash_weight ?sol - 1\<bar> \<le> eps)
            = (\<bar>sum_list (prev_weights prob) + prev_cash prob - 1\<bar> \<le> eps)"
      by blast+
  qed
qed

theorem budget_invariant_witness:
  "feasible (1 / 1000000) (built_lp example_problem) example_assignment \<and>
   (\<exists>sol. solve_portfolio_lp (run_report (example_report ''optimal''))
       (example_files example_problem) ''problem.json'' ''solution.json''
         = (Inr sol, (example_files example_problem)(''solution.json'' \<mapsto> Solution_doc sol)) \<and>
       \<bar>sum_list (asset_weights sol) + cash_weight sol - 1\<bar> \<le> 1 / 1000000) \<and>
   (\<exists>sol. solve_portfolio_lp run_all_raise
       (example_files example_problem) ''problem.json'' ''solution.json''
         = (Inr sol, (example_files example_problem)(''solution.json'' \<mapsto> Solution_doc sol)) \<and>
       \<bar>sum_list (asset_weights sol) + cash_weight sol - 1\<bar> \<le> 1 / 1000000)"
proof -
  let ?r = "example_report ''optimal''"
  have feas: "feasible (1 / 1000000) (built_lp example_problem) example_assignment"
    by (rule example_feasible) simp
  have c: "snd (solve_cascade (run_report ?r) (built_lp example_problem)) = Returned ?r"
    by (simp add: solve_cascade_unfold run_report_def)
  have s: "status ?r \<in> {''optimal'', ''optimal_inaccurate''}" "primal ?r = example_assignment"
    by (simp_all add: example_report_def)
  have a: "snd (solve_cascade run_all_raise (built_lp example_problem)) = Raised"
    by (simp add: solve_cascade_unfold run_all_raise_def)
  have p: "\<bar>sum_list (prev_weights example_problem) + prev_cash example_problem - 1\<bar>
             \<le> 1 / 1000000"
    by (simp add: example_problem_def)
  have one: "\<exists>sol. solve_portfolio_lp (run_report ?r)
       (example_files example_problem) ''problem.json'' ''solution.json''
         = (Inr sol, (example_files example_problem)(''solution.json'' \<mapsto> Solution_doc sol)) \<and>
       \<bar>sum_list (asset_weights sol) + cash_weight sol - 1\<bar> \<le> 1 / 1000000"
    using budget_invariant [OF example_load example_formulate, of "run_report ?r"
      "''solution.json''" "1 / 1000000"] c s feas
    by auto
  have two: "\<exists>sol. solve_portfolio_lp run_all_raise
       (example_files example_problem) ''problem.json'' ''solution.json''
         = (Inr sol, (example_files example_problem)(''solution.json'' \<mapsto> Solution_doc sol)) \<and>
       \<bar>sum_list (asset_weights sol) + cash_weight sol - 1\<bar> \<le> 1 / 1000000"
    using budget_invariant [OF example_load example_formulate, of run_all_raise
      "''solution.json''" "1 / 1000000"] a p
    by auto
  from feas one two show ?thesis by simp
qed



text \<open>
  C8.  For a status of the optimal class the solution is read off the back end's values:
  \<open>lpm1_value = (1/T) * sum(s_lpm)\<close>, \<open>cvar_value = eta + (1/((1-alpha)*T)) * sum(u)\<close>,
  \<open>turnover = sum(z)\<close> and \<open>beta_penalty = stress_weight * v\<close>, with the weights \<open>w\<close>,
  \<open>w_c\<close>, the reported objective value and the reported status.
\<close>

theorem metrics_from_optimized_values:
  assumes "load_problem fs problem_file = Inr prob"
    and "formulate prob = Inr lp"
    and "snd (solve_cascade run lp) = Returned r"
    and "status r \<in> {''optimal'', ''optimal_inaccurate''}"
  shows "solve_portfolio_lp run fs problem_file solution_file =
           (let \<sigma> = primal r; T = real_of_int (n_scenarios prob); alpha = cvar_alpha prob;
                sol = \<lparr> asset_weights = w_value \<sigma>,
                        cash_weight = w_c_value \<sigma>,
                        objective_value = Finite (opt_value r),
                        lpm1_value = (1 / T) * sum_list (s_lpm_value \<sigma>),
                        cvar_value = eta_value \<sigma> + (1 / ((1 - alpha) * T)) * sum_list (u_value \<sigma>),
                        turnover = sum_list (z_value \<sigma>),
                        beta_penalty = stress_weight prob * v_value \<sigma>,
                        solver_status = status r \<rparr>
            in (Inr sol, fs(solution_file \<mapsto> Solution_doc sol)))"
proof -
  have core: "solve_core run prob = Inr (solve_phase run prob lp)"
    by (rule solve_core_formulated [OF assms(2)])
  from assms(4) have "status r = ''optimal'' \<or> status r = ''optimal_inaccurate''" by simp
  note acc = solve_phase_accepted [OF assms(2,3) this]
  show ?thesis
    by (simp add: solve_portfolio_lp_loaded [OF assms(1)] core acc
          Let_def)
qed

theorem metrics_from_optimized_values_witness:
  "solve_portfolio_lp (run_second (example_report ''optimal_inaccurate''))
      (example_files example_problem) ''problem.json'' ''solution.json'' =
     (Inr \<lparr> asset_weights = [1/2, 1/2], cash_weight = 0,
            objective_value = Finite (187 / 1200),
            lpm1_value = 1 / 600, cvar_value = 1 / 120, turnover = 0,
            beta_penalty = 15 / 100, solver_status = ''optimal_inaccurate'' \<rparr>,
      (example_files example_problem)(''solution.json'' \<mapsto> Solution_doc
         \<lparr> asset_weights = [1/2, 1/2], cash_weight = 0,
           objective_value = Finite (187 / 1200),
           lpm1_value = 1 / 600, cvar_value = 1 / 120, turnover = 0,
           beta_penalty = 15 / 100, solver_status = ''optimal_inaccurate'' \<rparr>))"
proof -
  let ?r = "example_report ''optimal_inaccurate''"
  have c: "snd (solve_cascade (run_second ?r) (built_lp example_problem)) = Returned ?r"
    by (simp add: solve_cascade_unfold run_second_def)
  have s: "status ?r \<in> {''optimal'', ''optimal_inaccurate''}"
    by (simp add: example_report_def)
  show ?thesis
    using metrics_from_optimized_values [OF example_load example_formulate c s,
      of "''solution.json''"]
    by (simp add: Let_def example_report_def example_assignment_def example_problem_def)
qed

text \<open>
  C9, as amended.  For a problem that satisfies the dimension invariant with \<open>kappa > 0\<close>,
  and a back end whose point for a status of the optimal class satisfies the program
  within the tolerance \<open>eps\<close> and has an objective within \<open>gap\<close> of that of every point
  satisfying the program within \<open>eps\<close>, the reported turnover lies between
  \<open>sum |asset_weights[i] - prev_weights[i]| - N * eps\<close> and
  \<open>sum |asset_weights[i] - prev_weights[i]| + gap / kappa\<close>; at an exact optimum
  (\<open>eps = 0\<close> and \<open>gap = 0\<close>) they are equal and every slack is tight,
  \<open>z[i] = |w[i] - prev_weights[i]|\<close>.
\<close>

theorem turnover_consistency:
  assumes "load_problem fs problem_file = Inr prob"
    and "dims_ok prob" and "cvar_alpha prob \<noteq> 1"
    and "0 < kappa prob" and "0 \<le> eps"
    and "snd (solve_cascade run (built_lp prob)) = Returned r"
    and "status r \<in> {''optimal'', ''optimal_inaccurate''}"
    and "optimal_within eps gap (built_lp prob) (primal r)"
  shows "\<exists>sol. solve_portfolio_lp run fs problem_file solution_file
                 = (Inr sol, fs(solution_file \<mapsto> Solution_doc sol)) \<and>
           - (real (nat (n_assets prob)) * eps)
              \<le> turnover sol - abs_turnover prob (asset_weights sol) \<and>
           turnover sol - abs_turnover prob (asset_weights sol) \<le> gap / kappa prob \<and>
           (eps = 0 \<and> gap = 0 \<longrightarrow>
              turnover sol = abs_turnover prob (asset_weights sol) \<and>
              (\<forall>i<nat (n_assets prob).
                 z_value (primal r) ! i = \<bar>asset_weights sol ! i - prev_weights prob ! i\<bar>))"
proof -
  let ?sol = "solve_phase run prob (built_lp prob)"
  have fm: "formulate prob = Inr (built_lp prob)"
    by (rule formulate_ok [OF assms(2,3)])
  have core: "solve_core run prob = Inr ?sol"
    by (rule solve_core_formulated [OF fm])
  have ret: "solve_portfolio_lp run fs problem_file solution_file
      = (Inr ?sol, fs(solution_file \<mapsto> Solution_doc ?sol))"
    by (simp add: solve_portfolio_lp_loaded [OF assms(1)] core)
  from assms(7) have "status r = ''optimal'' \<or> status r = ''optimal_inaccurate''" by simp
  note acc = solve_phase_accepted [OF fm assms(6) this]
  have t: "turnover ?sol = sum_list (z_value (primal r))"
    and w: "asset_weights ?sol = w_value (primal r)"
    by (simp_all add: acc)
  note b = slack_bound [OF assms(2,4,5,8)]
  have lower: "- (real (nat (n_assets prob)) * eps)
              \<le> turnover ?sol - abs_turnover prob (asset_weights ?sol)"
    using b(1) by (simp add: t w)
  have upper: "turnover ?sol - abs_turnover prob (asset_weights ?sol) \<le> gap / kappa prob"
    using b(2) by (simp add: t w)
  have tight: "turnover ?sol = abs_turnover prob (asset_weights ?sol) \<and>
              (\<forall>i<nat (n_assets prob).
                 z_value (primal r) ! i = \<bar>asset_weights ?sol ! i - prev_weights prob ! i\<bar>)"
    if z: "eps = 0 \<and> gap = 0"
  proof -
    from assms(8) z have feas: "feasible 0 (built_lp prob) (primal r)"
      by (simp add: optimal_within_def)
    from b z have e: "sum_list (z_value (primal r)) = abs_turnover prob (w_value (primal r))"
      by simp
    with tight_pointwise [OF assms(2) feas e] show ?thesis
      by (simp add: t w)
  qed
  show ?thesis
  proof (intro exI [of _ ?sol] conjI impI)
    show "solve_portfolio_lp run fs problem_file solution_file
      = (Inr ?sol, fs(solution_file \<mapsto> Solution_doc ?sol))" by (rule ret)
    show "- (real (nat (n_assets prob)) * eps)
              \<le> turnover ?sol - abs_turnover prob (asset_weights ?sol)" by (rule lower)
    show "turnover ?sol - abs_turnover prob (asset_weights ?sol) \<le> gap / kappa prob"
      by (rule upper)
  next
    assume z: "eps = 0 \<and> gap = 0"
    from tight [OF z]
    show "turnover ?sol = abs_turnover prob (asset_weights ?sol)"
      and "\<forall>i<nat (n_assets prob).
                 z_value (primal r) ! i = \<bar>asset_weights ?sol ! i - prev_weights prob ! i\<bar>"
      by blast+
  qed
qed

theorem turnover_consistency_witness:
  "dims_ok mover_problem \<and> 0 < kappa mover_problem \<and>
   optimal_within (1 / 1000) (3 / 1000) (built_lp mover_problem) mover_assignment \<and>
   (\<exists>sol. solve_portfolio_lp (run_report mover_report)
       (example_files mover_problem) ''problem.json'' ''solution.json''
         = (Inr sol, (example_files mover_problem)(''solution.json'' \<mapsto> Solution_doc sol)) \<and>
       asset_weights sol = [1] \<and>
       turnover sol = 1001 / 1000 \<and>
       abs_turnover mover_problem (asset_weights sol) = 1 \<and>
       - (1 / 1000) \<le> turnover sol - abs_turnover mover_problem (asset_weights sol) \<and>
       turnover sol - abs_turnover mover_problem (asset_weights sol) \<le> 6 / 1000)"
proof -
  let ?p = "mover_problem"
  let ?r = "mover_report"
  have k: "cvar_alpha ?p \<noteq> 1" "0 < kappa ?p" "(0::real) \<le> 1 / 1000"
    by (simp_all add: mover_problem_def)
  have c: "snd (solve_cascade (run_report ?r) (built_lp ?p)) = Returned ?r"
    by (simp add: solve_cascade_unfold run_report_def)
  have s: "status ?r \<in> {''optimal'', ''optimal_inaccurate''}"
    by (simp add: mover_report_def)
  have o: "optimal_within (1 / 1000) (3 / 1000) (built_lp ?p) (primal ?r)"
    using mover_optimal by (simp add: mover_report_def)
  from turnover_consistency [OF example_load mover_dims k c s o, of "''solution.json''"]
  obtain sol where ret: "solve_portfolio_lp (run_report ?r)
       (example_files ?p) ''problem.json'' ''solution.json''
         = (Inr sol, (example_files ?p)(''solution.json'' \<mapsto> Solution_doc sol))"
    and lo: "- (real (nat (n_assets ?p)) * (1 / 1000))
              \<le> turnover sol - abs_turnover ?p (asset_weights sol)"
    and up: "turnover sol - abs_turnover ?p (asset_weights sol) \<le> (3 / 1000) / kappa ?p"
    by blast
  from s have st: "status ?r = ''optimal'' \<or> status ?r = ''optimal_inaccurate''" by simp
  have "solve_portfolio_lp (run_report ?r) (example_files ?p) ''problem.json''
       ''solution.json''
     = (Inr (solve_phase (run_report ?r) ?p (built_lp ?p)),
        (example_files ?p)(''solution.json'' \<mapsto>
           Solution_doc (solve_phase (run_report ?r) ?p (built_lp ?p))))"
    by (simp add: solve_portfolio_lp_loaded [OF example_load]
          solve_core_formulated [OF mover_formulate])
  with ret have sol: "sol = solve_phase (run_report ?r) ?p (built_lp ?p)" by simp
  have aw: "asset_weights sol = [1]" and tv: "turnover sol = 1001 / 1000"
    unfolding sol solve_phase_accepted [OF mover_formulate c st]
    by (simp_all add: mover_report_def mover_assignment_def)
  have at: "abs_turnover ?p [1] = 1"
    by (simp add: abs_turnover_def mover_problem_def)
  from lo have lo': "- (1 / 1000) \<le> turnover sol - abs_turnover ?p (asset_weights sol)"
    by (simp add: mover_problem_def)
  from up have up': "turnover sol - abs_turnover ?p (asset_weights sol) \<le> 6 / 1000"
    by (simp add: mover_problem_def)
  from ret aw tv at lo' up' have "\<exists>sol. solve_portfolio_lp (run_report ?r)
       (example_files ?p) ''problem.json'' ''solution.json''
         = (Inr sol, (example_files ?p)(''solution.json'' \<mapsto> Solution_doc sol)) \<and>
       asset_weights sol = [1] \<and>
       turnover sol = 1001 / 1000 \<and>
       abs_turnover ?p (asset_weights sol) = 1 \<and>
       - (1 / 1000) \<le> turnover sol - abs_turnover ?p (asset_weights sol) \<and>
       turnover sol - abs_turnover ?p (asset_weights sol) \<le> 6 / 1000"
    by (intro exI [of _ sol]) simp
  with mover_dims k(2) mover_optimal show ?thesis by simp
qed

text \<open>
  C9 as stated fails for \<open>kappa = 0\<close>: the turnover slack has no weight in the objective,
  so a point with \<open>z = 1\<close> at unchanged weights is an exact optimum, and the reported
  turnover is 1 while the turnover recomputed from the weights is 0.
\<close>

theorem turnover_slack_counterexample:
  "dims_ok (single_asset_problem 0) \<and>
   optimal_within 0 0 (built_lp (single_asset_problem 0)) (single_asset_assignment 1) \<and>
   solve_portfolio_lp (run_report (single_asset_report 1))
       (example_files (single_asset_problem 0)) ''problem.json'' ''solution.json''
     = (Inr \<lparr> asset_weights = [1], cash_weight = 0, objective_value = Finite 0,
              lpm1_value = 0, cvar_value = 0, turnover = 1, beta_penalty = 0,
              solver_status = ''optimal'' \<rparr>,
        (example_files (single_asset_problem 0))(''solution.json'' \<mapsto> Solution_doc
           \<lparr> asset_weights = [1], cash_weight = 0, objective_value = Finite 0,
             lpm1_value = 0, cvar_value = 0, turnover = 1, beta_penalty = 0,
             solver_status = ''optimal'' \<rparr>)) \<and>
   abs_turnover (single_asset_problem 0) [1] = 0"
proof -
  let ?p = "single_asset_problem 0"
  let ?r = "single_asset_report 1"
  have c: "snd (solve_cascade (run_report ?r) (built_lp ?p)) = Returned ?r"
    by (simp add: solve_cascade_unfold run_report_def)
  have s: "status ?r = ''optimal'' \<or> status ?r = ''optimal_inaccurate''"
    by (simp add: single_asset_report_def)
  have o: "optimal_within 0 0 (built_lp ?p) (single_asset_assignment 1)"
    by (rule single_optimal) simp_all
  have core: "solve_core (run_report ?r) ?p = Inr (solve_phase (run_report ?r) ?p (built_lp ?p))"
    by (rule solve_core_formulated [OF single_formulate])
  have "solve_phase (run_report ?r) ?p (built_lp ?p) =
      \<lparr> asset_weights = [1], cash_weight = 0, objective_value = Finite 0,
              lpm1_value = 0, cvar_value = 0, turnover = 1, beta_penalty = 0,
              solver_status = ''optimal'' \<rparr>"
    by (simp add: solve_phase_accepted [OF single_formulate c s])
      (simp add: single_asset_report_def single_asset_assignment_def single_asset_problem_def)
  then have "solve_portfolio_lp (run_report ?r) (example_files ?p) ''problem.json''
       ''solution.json''
     = (Inr \<lparr> asset_weights = [1], cash_weight = 0, objective_value = Finite 0,
              lpm1_value = 0, cvar_value = 0, turnover = 1, beta_penalty = 0,
              solver_status = ''optimal'' \<rparr>,
        (example_files ?p)(''solution.json'' \<mapsto> Solution_doc
           \<lparr> asset_weights = [1], cash_weight = 0, objective_value = Finite 0,
             lpm1_value = 0, cvar_value = 0, turnover = 1, beta_penalty = 0,
             solver_status = ''optimal'' \<rparr>))"
    by (simp add: solve_portfolio_lp_loaded [OF example_load] core)
  moreover have "abs_turnover ?p [1] = 0"
    by (simp add: abs_turnover_def single_asset_problem_def)
  ultimately show ?thesis using single_dims o by simp
qed

text \<open>
  C10, as amended.  For every problem with \<open>cvar_alpha = 1\<close> the call raises before the
  guarded block: no solution is returned and the files are unchanged.  When the problem
  satisfies the dimension invariant (so \<open>T \<ge> 1\<close>) the exception is the
  \<open>ZeroDivisionError\<close> of the CVaR term; otherwise it is that or the array library's
  \<open>ValueError\<close> of an earlier line.
\<close>

theorem alpha_one_raises:
  assumes "load_problem fs problem_file = Inr prob" and "cvar_alpha prob = 1"
  shows "(solve_portfolio_lp run fs problem_file solution_file = (Inl ZeroDivisionError, fs) \<or>
          solve_portfolio_lp run fs problem_file solution_file = (Inl ValueError, fs)) \<and>
         (dims_ok prob \<longrightarrow>
            solve_portfolio_lp run fs problem_file solution_file = (Inl ZeroDivisionError, fs))"
proof -
  from formulate_alpha_one [OF assms(2)] obtain e where e: "formulate prob = Inl e" ..
  then have r: "solve_portfolio_lp run fs problem_file solution_file = (Inl e, fs)"
    by (simp add: solve_portfolio_lp_loaded [OF assms(1)] solve_core_failed)
  from formulate_Inl [OF e] have "e = ValueError \<or> e = ZeroDivisionError" .
  moreover have "e = ZeroDivisionError" if "dims_ok prob"
    using e assms(2) by (simp add: formulate_checked [OF that])
  ultimately show ?thesis using r by auto
qed

theorem alpha_one_raises_witness:
  "dims_ok ((single_asset_problem 1)\<lparr> cvar_alpha := 1 \<rparr>) \<and>
   1 \<le> n_scenarios ((single_asset_problem 1)\<lparr> cvar_alpha := 1 \<rparr>) \<and>
   solve_portfolio_lp (run_report (single_asset_report 0))
       (example_files ((single_asset_problem 1)\<lparr> cvar_alpha := 1 \<rparr>))
       ''problem.json'' ''solution.json''
     = (Inl ZeroDivisionError, example_files ((single_asset_problem 1)\<lparr> cvar_alpha := 1 \<rparr>))"
proof -
  let ?p = "(single_asset_problem 1)\<lparr> cvar_alpha := 1 \<rparr>"
  have d: "dims_ok ?p" by (simp add: dims_ok_def single_asset_problem_def)
  have n: "1 \<le> n_scenarios ?p" by (simp add: single_asset_problem_def)
  have a: "cvar_alpha ?p = 1" by simp
  from alpha_one_raises [OF example_load a, of "run_report (single_asset_report 0)"
      "''solution.json''"] d n
  show ?thesis by simp
qed

text \<open>
  C10 as stated fails when the arrays do not have the declared dimensions: with
  \<open>cvar_alpha = 1\<close>, three scenarios and a benchmark of two entries, the subtraction of the
  benchmark raises \<open>ValueError\<close> before the CVaR term is reached.
\<close>

theorem alpha_one_shape_counterexample:
  "cvar_alpha (example_problem\<lparr> benchmark_scenarios := [0, 0], cvar_alpha := 1 \<rparr>) = 1 \<and>
   1 \<le> n_scenarios (example_problem\<lparr> benchmark_scenarios := [0, 0], cvar_alpha := 1 \<rparr>) \<and>
   solve_portfolio_lp run_all_raise
       (example_files (example_problem\<lparr> benchmark_scenarios := [0, 0], cvar_alpha := 1 \<rparr>))
       ''problem.json'' ''solution.json''
     = (Inl ValueError,
        example_files (example_problem\<lparr> benchmark_scenarios := [0, 0], cvar_alpha := 1 \<rparr>))"
  by (simp add: solve_portfolio_lp_loaded [OF example_load] solve_core_failed
        short_benchmark_alpha_one_formulate)
    (simp add: example_problem_def)

end
